theory Spec2Isabelle
  imports Main "HOL-Library.Word"
begin

section \<open>JavaScript values\<close>

text \<open>
  A JavaScript string is a sequence of 16-bit code units (UTF-16, lone surrogates
  allowed). String literals of the source are written with \<open>js\<close>, which maps the
  ASCII characters of an Isabelle literal to their code units.
\<close>

type_synonym code_unit = "16 word"
type_synonym jsstring = "code_unit list"

definition js :: "string \<Rightarrow> jsstring" where
  "js s = map (\<lambda>c. of_nat (of_char c)) s"

text \<open>
  The values the two entry points can receive at run time (their TypeScript types are
  erased, and \<open>validateInputs\<close> takes \<open>unknown\<close>). An object is the list of its own
  enumerable string-keyed properties in the order of \<open>Object.keys\<close>. The payload of a
  number is never inspected by the program.
\<close>

datatype jsval =
    Undefined
  | Null
  | Boolean bool
  | Number int
  | String jsstring
  | Array "jsval list"
  | Object "(jsstring \<times> jsval) list"

text \<open>The three error classes the program constructs or lets through, with their message.\<close>

datatype js_error =
    TypeError jsstring
  | Error jsstring
  | URIError jsstring

subsection \<open>Built-ins of the platform used by the source\<close>

text \<open>\<open>String.prototype.trim\<close>: strips WhiteSpace and LineTerminator code units at both ends.\<close>

definition isWhiteSpace :: "code_unit \<Rightarrow> bool" where
  "isWhiteSpace c = (c \<in> {0x0009, 0x000A, 0x000B, 0x000C, 0x000D, 0x0020, 0x00A0, 0x1680,
      0x2000, 0x2001, 0x2002, 0x2003, 0x2004, 0x2005, 0x2006, 0x2007, 0x2008, 0x2009, 0x200A,
      0x2028, 0x2029, 0x202F, 0x205F, 0x3000, 0xFEFF})"

definition trim :: "jsstring \<Rightarrow> jsstring" where
  "trim s = rev (dropWhile isWhiteSpace (rev (dropWhile isWhiteSpace s)))"

text \<open>\<open>s.includes(t)\<close> for a one-character \<open>t\<close>, and \<open>s.startsWith(t)\<close>.\<close>

definition str_includes :: "jsstring \<Rightarrow> code_unit \<Rightarrow> bool" where
  "str_includes s c = (c \<in> set s)"

definition startsWith :: "jsstring \<Rightarrow> jsstring \<Rightarrow> bool" where
  "startsWith s t = (take (length t) s = t)"

text \<open>
  \<open>obj[key]\<close> on an object: the value of the property, \<open>undefined\<close> when there is none.
  \<open>Object.keys\<close> is applied by the source to plain objects only.
\<close>

definition get_prop :: "(jsstring \<times> jsval) list \<Rightarrow> jsstring \<Rightarrow> jsval" where
  "get_prop ps key = (case map_of ps key of Some v \<Rightarrow> v | None \<Rightarrow> Undefined)"

definition Object_keys :: "(jsstring \<times> jsval) list \<Rightarrow> jsstring list" where
  "Object_keys ps = map fst ps"

text \<open>
  \<open>encodeURIComponent\<close> (ECMAScript, abstract operation Encode with an empty extra set).
  A code unit of the unreserved set is copied; any other code point is written as the
  percent-escaped octets of its UTF-8 encoding, in upper-case hexadecimal; an unpaired
  surrogate throws a URIError.
\<close>

definition questionMark :: code_unit where "questionMark = 0x3F"
definition ampersand :: code_unit where "ampersand = 0x26"
definition equalsSign :: code_unit where "equalsSign = 0x3D"
definition percentSign :: code_unit where "percentSign = 0x25"
definition plusSign :: code_unit where "plusSign = 0x2B"

definition uriUnescaped :: "code_unit \<Rightarrow> bool" where
  "uriUnescaped c =
     (let n = unat c in
        (0x41 \<le> n \<and> n \<le> 0x5A) \<or> (0x61 \<le> n \<and> n \<le> 0x7A) \<or> (0x30 \<le> n \<and> n \<le> 0x39) \<or>
        n = 0x2D \<or> n = 0x5F \<or> n = 0x2E \<or> n = 0x21 \<or> n = 0x7E \<or> n = 0x2A \<or>
        n = 0x27 \<or> n = 0x28 \<or> n = 0x29)"

definition isLeadSurrogate :: "code_unit \<Rightarrow> bool" where
  "isLeadSurrogate c = (0xD800 \<le> unat c \<and> unat c \<le> 0xDBFF)"

definition isTrailSurrogate :: "code_unit \<Rightarrow> bool" where
  "isTrailSurrogate c = (0xDC00 \<le> unat c \<and> unat c \<le> 0xDFFF)"

definition surrogatePairToCodePoint :: "code_unit \<Rightarrow> code_unit \<Rightarrow> nat" where
  "surrogatePairToCodePoint lead trail =
     (unat lead - 0xD800) * 0x400 + (unat trail - 0xDC00) + 0x10000"

definition utf8 :: "nat \<Rightarrow> nat list" where
  "utf8 cp =
     (if cp < 0x80 then [cp]
      else if cp < 0x800 then [0xC0 + cp div 0x40, 0x80 + cp mod 0x40]
      else if cp < 0x10000 then
        [0xE0 + cp div 0x1000, 0x80 + (cp div 0x40) mod 0x40, 0x80 + cp mod 0x40]
      else
        [0xF0 + cp div 0x40000, 0x80 + (cp div 0x1000) mod 0x40,
         0x80 + (cp div 0x40) mod 0x40, 0x80 + cp mod 0x40])"

definition hexDigit :: "nat \<Rightarrow> code_unit" where
  "hexDigit d = (if d < 10 then of_nat (0x30 + d) else of_nat (0x41 + (d - 10)))"

definition escapeOctet :: "nat \<Rightarrow> jsstring" where
  "escapeOctet b = [percentSign, hexDigit (b div 16), hexDigit (b mod 16)]"

definition escapeCodePoint :: "nat \<Rightarrow> jsstring" where
  "escapeCodePoint cp = concat (map escapeOctet (utf8 cp))"

definition uriMalformed :: js_error where
  "uriMalformed = URIError (js ''URI malformed'')"

definition prepend :: "jsstring \<Rightarrow> js_error + jsstring \<Rightarrow> js_error + jsstring" where
  "prepend xs r = (case r of Inl e \<Rightarrow> Inl e | Inr ys \<Rightarrow> Inr (xs @ ys))"

fun encodeURIComponent :: "jsstring \<Rightarrow> js_error + jsstring" where
  "encodeURIComponent [] = Inr []"
| "encodeURIComponent (c # cs) =
     (if uriUnescaped c then prepend [c] (encodeURIComponent cs)
      else if \<not> isLeadSurrogate c \<and> \<not> isTrailSurrogate c then
        prepend (escapeCodePoint (unat c)) (encodeURIComponent cs)
      else if isTrailSurrogate c then Inl uriMalformed
      else (case cs of
              [] \<Rightarrow> Inl uriMalformed
            | d # ds \<Rightarrow>
                if isTrailSurrogate d then
                  prepend (escapeCodePoint (surrogatePairToCodePoint c d)) (encodeURIComponent ds)
                else Inl uriMalformed))"

text \<open>
  \<open>encodeURIComponent\<close> converts its argument with ToString first. The source applies
  it to keys (strings) and to parameter values that validation has found to be strings;
  only that case of ToString is given.
\<close>

fun ToString :: "jsval \<Rightarrow> jsstring" where
  "ToString (String s) = s"

section \<open>The environment\<close>

text \<open>
  \<open>new URL(input, base).protocol\<close> belongs to the platform (the WHATWG URL parser) and
  is a parameter of the model: the protocol of the parsed URL, or \<open>None\<close> when the
  constructor throws. The second argument is \<open>None\<close> where the source passes no base.
\<close>

type_synonym url_parser = "jsstring \<Rightarrow> jsstring option \<Rightarrow> jsstring option"

text \<open>
  The global state the program reads and writes. \<open>window\<close> is \<open>None\<close> where
  \<open>typeof window\<close> is \<open>'undefined'\<close>, and otherwise holds \<open>window.location.origin\<close>.
  Elements, timers and promises are kept in stores and named by their index. Only the
  children of the document's first \<open>head\<close> element are tracked (\<open>None\<close>: there is no
  \<open>head\<close>). The closures of one call are data: an \<open>invocation\<close> holds the variables
  they capture, a \<open>callback\<close> says which of the three closures it is.
\<close>

record invocation =
  scriptElement :: nat
  timeout :: nat
  promise :: nat
  constructedUrl :: jsstring

datatype callback = OnTimeout invocation | OnLoad invocation | OnError invocation

datatype event_type = LoadEvent | ErrorEvent

record element =
  tagName :: jsstring
  src :: jsstring
  async :: bool
  listeners :: "(event_type \<times> callback) list"

record timer =
  handler :: callback
  delay :: nat
  pending :: bool

datatype promise_state = Pending | Fulfilled | Rejected js_error

record world =
  window :: "jsstring option"
  elements :: "element list"
  head :: "nat list option"
  timers :: "timer list"
  promises :: "promise_state list"

section \<open>src/index.ts\<close>

datatype ValidationResult = Valid | Invalid js_error

text \<open>The loop of \<open>validateInputs\<close> over \<open>Object.keys(params)\<close>.\<close>

fun validateParams :: "(jsstring \<times> jsval) list \<Rightarrow> jsstring list \<Rightarrow> ValidationResult" where
  "validateParams params [] = Valid"
| "validateParams params (key # keys) =
     (if trim key = [] then Invalid (Error (js ''queryParamsObject keys cannot be empty''))
      else (case get_prop params key of
              String v \<Rightarrow> validateParams params keys
            | _ \<Rightarrow> Invalid (TypeError (js ''queryParamsObject value for key \"'' @ key @
                                       js ''\" must be a string''))))"

text \<open>
  \<open>window.location.origin\<close> is evaluated inside the \<open>try\<close>: without a \<open>window\<close> the
  ReferenceError is caught like a failure of the URL constructor.
\<close>

definition validateInputs :: "url_parser \<Rightarrow> world \<Rightarrow> jsval \<Rightarrow> jsval \<Rightarrow> ValidationResult" where
  "validateInputs URL w baseUrl queryParamsObject =
     (case baseUrl of
        String b \<Rightarrow>
          if trim b = [] then Invalid (Error (js ''baseUrl cannot be empty''))
          else (case (case window w of None \<Rightarrow> None | Some origin \<Rightarrow> URL b (Some origin)) of
                  None \<Rightarrow> Invalid (Error (js ''baseUrl must be a valid URL''))
                | Some protocol \<Rightarrow>
                    if protocol \<noteq> js ''http:'' \<and> protocol \<noteq> js ''https:'' then
                      Invalid (Error (js ''baseUrl must use http: or https: protocol''))
                    else (case queryParamsObject of
                            Null \<Rightarrow> Invalid (TypeError (js ''queryParamsObject must be an object''))
                          | Undefined \<Rightarrow>
                              Invalid (TypeError (js ''queryParamsObject must be an object''))
                          | Object params \<Rightarrow> validateParams params (Object_keys params)
                          | _ \<Rightarrow> Invalid (TypeError (js ''queryParamsObject must be a plain object''))))
      | _ \<Rightarrow> Invalid (TypeError (js ''baseUrl must be a string'')))"

text \<open>
  The callback of \<open>keys.reduce\<close> in \<open>generateUrl\<close>, run over the remaining keys with the
  current index and accumulator. It has the same text in both source files.
\<close>

fun reduceKeys ::
  "(jsstring \<times> jsval) list \<Rightarrow> code_unit \<Rightarrow> jsstring list \<Rightarrow> nat \<Rightarrow> jsstring \<Rightarrow> js_error + jsstring"
where
  "reduceKeys params firstSeparator [] index acc = Inr acc"
| "reduceKeys params firstSeparator (key # keys) index acc =
     (case encodeURIComponent key of
        Inl e \<Rightarrow> Inl e
      | Inr encodedKey \<Rightarrow>
          (case encodeURIComponent (ToString (get_prop params key)) of
             Inl e \<Rightarrow> Inl e
           | Inr encodedValue \<Rightarrow>
               reduceKeys params firstSeparator keys (Suc index)
                 (acc @ [if index = 0 then firstSeparator else ampersand] @ encodedKey @
                  [equalsSign] @ encodedValue)))"

text \<open>What \<open>generateUrl\<close> does once its validation has passed (the same in both files).\<close>

definition buildQuery :: "jsstring \<Rightarrow> (jsstring \<times> jsval) list \<Rightarrow> js_error + jsstring" where
  "buildQuery baseUrl params =
     (let keys = Object_keys params in
      if length keys = 0 then Inr baseUrl
      else
        (let firstSeparator = (if str_includes baseUrl questionMark then ampersand else questionMark)
         in case reduceKeys params firstSeparator keys 0 [] of
              Inl e \<Rightarrow> Inl e
            | Inr queryString \<Rightarrow> Inr (baseUrl @ queryString)))"

text \<open>\<open>generateUrl\<close>: \<open>Inl\<close> is the error thrown, \<open>Inr\<close> the string returned.\<close>

definition generateUrl :: "url_parser \<Rightarrow> world \<Rightarrow> jsval \<Rightarrow> jsval \<Rightarrow> js_error + jsstring" where
  "generateUrl URL w baseUrl queryParamsObject =
     (case validateInputs URL w baseUrl queryParamsObject of
        Invalid e \<Rightarrow> Inl e
      | Valid \<Rightarrow>
          (case (baseUrl, queryParamsObject) of
             (String b, Object params) \<Rightarrow> buildQuery b params))"

subsection \<open>Operations of the platform on the global state\<close>

text \<open>
  \<open>Promise.reject(e)\<close> makes a promise that is already rejected, \<open>new Promise\<close> a
  pending one. \<open>resolve\<close> and \<open>reject\<close> settle a pending promise and leave a settled
  one as it is.
\<close>

definition Promise_reject :: "js_error \<Rightarrow> world \<Rightarrow> nat \<times> world" where
  "Promise_reject e w = (length (promises w), w\<lparr>promises := promises w @ [Rejected e]\<rparr>)"

definition new_Promise :: "world \<Rightarrow> nat \<times> world" where
  "new_Promise w = (length (promises w), w\<lparr>promises := promises w @ [Pending]\<rparr>)"




text \<open>
  \<open>document.createElement\<close>: a new element without parent. A script element made this
  way reads \<open>async\<close> as true from the start.
\<close>

definition createElement :: "jsstring \<Rightarrow> world \<Rightarrow> nat \<times> world" where
  "createElement tag w =
     (length (elements w),
      w\<lparr>elements := elements w @ [\<lparr>tagName = tag, src = [], async = True, listeners = []\<rparr>]\<rparr>)"

definition update_element :: "nat \<Rightarrow> (element \<Rightarrow> element) \<Rightarrow> world \<Rightarrow> world" where
  "update_element n f w =
     (if n < length (elements w) then w\<lparr>elements := (elements w)[n := f (elements w ! n)]\<rparr>
      else w)"

definition set_src :: "nat \<Rightarrow> jsstring \<Rightarrow> world \<Rightarrow> world" where
  "set_src n url w = update_element n (\<lambda>e. e\<lparr>src := url\<rparr>) w"

definition set_async :: "nat \<Rightarrow> bool \<Rightarrow> world \<Rightarrow> world" where
  "set_async n b w = update_element n (\<lambda>e. e\<lparr>async := b\<rparr>) w"

text \<open>\<open>addEventListener\<close> ignores a listener that is already registered.\<close>

definition addEventListener :: "nat \<Rightarrow> event_type \<Rightarrow> callback \<Rightarrow> world \<Rightarrow> world" where
  "addEventListener n ty cb w =
     update_element n
       (\<lambda>e. if (ty, cb) \<in> set (listeners e) then e
            else e\<lparr>listeners := listeners e @ [(ty, cb)]\<rparr>) w"


text \<open>
  \<open>document.getElementsByTagName('head')[0]\<close> is the field \<open>head\<close>.
  \<open>headElement.insertAdjacentElement('beforeend', n)\<close> makes \<open>n\<close> the last child.
  \<open>n.parentNode\<close> is not null when \<open>n\<close> is a child of \<open>head\<close>, the one place where
  the program puts an element; \<open>removeChild\<close> takes it out.
\<close>

definition insertAdjacentElement_beforeend :: "nat \<Rightarrow> world \<Rightarrow> world" where
  "insertAdjacentElement_beforeend n w =
     (case head w of None \<Rightarrow> w | Some children \<Rightarrow> w\<lparr>head := Some (children @ [n])\<rparr>)"



text \<open>\<open>setTimeout\<close> returns the next free handle; \<open>clearTimeout\<close> cancels a timer.\<close>

definition setTimeout :: "callback \<Rightarrow> nat \<Rightarrow> world \<Rightarrow> nat \<times> world" where
  "setTimeout cb ms w =
     (length (timers w), w\<lparr>timers := timers w @ [\<lparr>handler = cb, delay = ms, pending = True\<rparr>]\<rparr>)"


subsection \<open>The loader\<close>


definition timeoutDuration :: nat where
  "timeoutDuration = 2000"



text \<open>
  The part of \<open>asyncScriptLoader\<close> from the creation of the script element on; it has
  the same text in both source files. The result is the promise returned.
\<close>

definition injectScript :: "jsstring \<Rightarrow> world \<Rightarrow> nat \<times> world" where
  "injectScript url w =
     (let (n, w1) = createElement (js ''script'') w;
          w2 = set_src n url w1;
          w3 = set_async n True w2
      in case head w3 of
           None \<Rightarrow> Promise_reject (Error (js ''No <head> element found in document'')) w3
         | Some headElement \<Rightarrow>
             (let w4 = insertAdjacentElement_beforeend n w3;
                  (p, w5) = new_Promise w4;
                  cl = \<lparr>scriptElement = n, timeout = length (timers w5), promise = p,
                         constructedUrl = url\<rparr>;
                  (t, w6) = setTimeout (OnTimeout cl) timeoutDuration w5;
                  w7 = addEventListener n LoadEvent (OnLoad cl) w6;
                  w8 = addEventListener n ErrorEvent (OnError cl) w7
              in (p, w8)))"

text \<open>
  \<open>asyncScriptLoader\<close>: \<open>Inl\<close> is an error thrown by the call itself, \<open>Inr\<close> the
  promise it returns.
\<close>

definition asyncScriptLoader ::
  "url_parser \<Rightarrow> jsval \<Rightarrow> jsval \<Rightarrow> world \<Rightarrow> (js_error + nat) \<times> world"
where
  "asyncScriptLoader URL baseUrl queryParamObject w =
     (if window w = None then
        (let (p, w') = Promise_reject
                         (Error (js ''asyncScriptLoader requires a browser environment'')) w
         in (Inr p, w'))
      else
        (case validateInputs URL w baseUrl queryParamObject of
           Invalid e \<Rightarrow> (let (p, w') = Promise_reject e w in (Inr p, w'))
         | Valid \<Rightarrow>
             (case generateUrl URL w baseUrl queryParamObject of
                Inl e \<Rightarrow> (Inl e, w)
              | Inr url \<Rightarrow> (let (p, w') = injectScript url w in (Inr p, w')))))"

subsection \<open>Events\<close>








section \<open>The second source file (the variant without protocol and key checks)\<close>

text \<open>
  The loop over \<open>Object.keys\<close> that checks the values; the two copies differ in the name
  of the object in the message only.
\<close>

fun checkValues :: "jsstring \<Rightarrow> (jsstring \<times> jsval) list \<Rightarrow> jsstring list \<Rightarrow> js_error option" where
  "checkValues name params [] = None"
| "checkValues name params (key # keys) =
     (case get_prop params key of
        String v \<Rightarrow> checkValues name params keys
      | _ \<Rightarrow> Some (TypeError (name @ js '' value for key \"'' @ key @ js ''\" must be a string'')))"

definition generateUrl_loose :: "jsval \<Rightarrow> jsval \<Rightarrow> js_error + jsstring" where
  "generateUrl_loose baseUrl queryParamsObject =
     (case baseUrl of
        String b \<Rightarrow>
          if trim b = [] then Inl (Error (js ''baseUrl cannot be empty''))
          else (case queryParamsObject of
                  Null \<Rightarrow> Inl (TypeError (js ''queryParamsObject must be an object''))
                | Undefined \<Rightarrow> Inl (TypeError (js ''queryParamsObject must be an object''))
                | Object params \<Rightarrow>
                    (case checkValues (js ''queryParamsObject'') params (Object_keys params) of
                       Some e \<Rightarrow> Inl e
                     | None \<Rightarrow> buildQuery b params)
                | _ \<Rightarrow> Inl (TypeError (js ''queryParamsObject must be a plain object'')))
      | _ \<Rightarrow> Inl (TypeError (js ''baseUrl must be a string'')))"

definition asyncScriptLoader_loose ::
  "url_parser \<Rightarrow> jsval \<Rightarrow> jsval \<Rightarrow> world \<Rightarrow> (js_error + nat) \<times> world"
where
  "asyncScriptLoader_loose URL baseUrl queryParamObject w =
     (let rejected = (\<lambda>e. let (p, w') = Promise_reject e w in (Inr p, w')) in
      case baseUrl of
        String b \<Rightarrow>
          if trim b = [] then rejected (Error (js ''baseUrl cannot be empty''))
          else if (startsWith b (js ''http'') \<or> startsWith b (js ''https'')) \<and> URL b None = None
          then rejected (Error (js ''baseUrl must be a valid URL''))
          else (case queryParamObject of
                  Null \<Rightarrow> rejected (TypeError (js ''queryParamObject must be an object''))
                | Undefined \<Rightarrow> rejected (TypeError (js ''queryParamObject must be an object''))
                | Object params \<Rightarrow>
                    (case checkValues (js ''queryParamObject'') params (Object_keys params) of
                       Some e \<Rightarrow> rejected e
                     | None \<Rightarrow>
                         (case generateUrl_loose baseUrl queryParamObject of
                            Inl e \<Rightarrow> (Inl e, w)
                          | Inr url \<Rightarrow> (let (p, w') = injectScript url w in (Inr p, w'))))
                | _ \<Rightarrow> rejected (TypeError (js ''queryParamObject must be a plain object'')))
      | _ \<Rightarrow> rejected (TypeError (js ''baseUrl must be a string'')))"

section \<open>Example environment\<close>

text \<open>
  An instance of the URL parser for the examples: the protocol is the scheme the input
  starts with (an ASCII letter, then letters, digits, \<open>+\<close>, \<open>-\<close> or \<open>.\<close>, up to a
  colon; lower-cased), or else the scheme of the base; without either the constructor
  throws. It does not look at the rest of the input. On the inputs of the examples below
  it gives what the WHATWG parser gives.
\<close>

definition isAsciiAlpha :: "code_unit \<Rightarrow> bool" where
  "isAsciiAlpha c = ((0x41 \<le> unat c \<and> unat c \<le> 0x5A) \<or> (0x61 \<le> unat c \<and> unat c \<le> 0x7A))"

definition isSchemeChar :: "code_unit \<Rightarrow> bool" where
  "isSchemeChar c =
     (isAsciiAlpha c \<or> (0x30 \<le> unat c \<and> unat c \<le> 0x39) \<or> c = 0x2B \<or> c = 0x2D \<or> c = 0x2E)"

definition toAsciiLower :: "code_unit \<Rightarrow> code_unit" where
  "toAsciiLower c = (if 0x41 \<le> unat c \<and> unat c \<le> 0x5A then c + 0x20 else c)"

definition schemeOf :: "jsstring \<Rightarrow> jsstring option" where
  "schemeOf s =
     (case s of
        [] \<Rightarrow> None
      | c # cs \<Rightarrow>
          if isAsciiAlpha c \<and> take 1 (dropWhile isSchemeChar cs) = js '':''
          then Some (map toAsciiLower (c # takeWhile isSchemeChar cs)) else None)"

definition example_URL :: url_parser where
  "example_URL input base =
     (case schemeOf input of
        Some s \<Rightarrow> Some (s @ js '':'')
      | None \<Rightarrow>
          (case base of
             None \<Rightarrow> None
           | Some b \<Rightarrow> (case schemeOf b of Some s \<Rightarrow> Some (s @ js '':'') | None \<Rightarrow> None)))"

text \<open>A page at \<open>https://example.com\<close> with an empty \<open>head\<close>, and the same without a window.\<close>

definition example_page :: world where
  "example_page =
     \<lparr>window = Some (js ''https://example.com''), elements = [], head = Some [],
      timers = [], promises = []\<rparr>"

definition no_window :: world where
  "no_window = example_page\<lparr>window := None\<rparr>"

definition widget_url :: jsstring where
  "widget_url = js ''https://cdn.example.com/widget.js''"

section \<open>Notions used to state the properties\<close>

subsection \<open>Shape of the constructed URL\<close>

text \<open>
  \<open>encodePair params key\<close> is \<open>key=value\<close> for the property \<open>key\<close> of \<open>params\<close>,
  both sides encoded as the callback of the reduce encodes them. \<open>joinPairs sep es\<close>
  puts \<open>sep\<close> before the first element and an ampersand before each later one.
\<close>

definition encodePair :: "(jsstring \<times> jsval) list \<Rightarrow> jsstring \<Rightarrow> js_error + jsstring" where
  "encodePair params key =
     (case encodeURIComponent key of
        Inl e \<Rightarrow> Inl e
      | Inr encodedKey \<Rightarrow>
          (case encodeURIComponent (ToString (get_prop params key)) of
             Inl e \<Rightarrow> Inl e
           | Inr encodedValue \<Rightarrow> Inr (encodedKey @ [equalsSign] @ encodedValue)))"

definition isEncodedPair :: "(jsstring \<times> jsval) list \<Rightarrow> jsstring \<Rightarrow> jsstring \<Rightarrow> bool" where
  "isEncodedPair params key e = (encodePair params key = Inr e)"

definition joinPairs :: "code_unit \<Rightarrow> jsstring list \<Rightarrow> jsstring" where
  "joinPairs firstSeparator es =
     (case es of [] \<Rightarrow> [] | e # es' \<Rightarrow> firstSeparator # e @ concat (map ((#) ampersand) es'))"

text \<open>The key/value pairs of a parameter object, as the source reads them.\<close>

definition entries :: "(jsstring \<times> jsval) list \<Rightarrow> (jsstring \<times> jsstring) list" where
  "entries params = map (\<lambda>key. (key, ToString (get_prop params key))) (Object_keys params)"

subsection \<open>Well-formed strings and percent-decoding\<close>

text \<open>A string without unpaired surrogates.\<close>

fun wellFormedUTF16 :: "jsstring \<Rightarrow> bool" where
  "wellFormedUTF16 [] = True"
| "wellFormedUTF16 (c # cs) =
     (if isLeadSurrogate c then
        (case cs of [] \<Rightarrow> False | d # ds \<Rightarrow> isTrailSurrogate d \<and> wellFormedUTF16 ds)
      else \<not> isTrailSurrogate c \<and> wellFormedUTF16 cs)"

text \<open>Every key and every value of a parameter object is a well-formed string.\<close>

definition wellFormedParams :: "(jsstring \<times> jsval) list \<Rightarrow> bool" where
  "wellFormedParams params =
     list_all (\<lambda>key. wellFormedUTF16 key \<and> wellFormedUTF16 (ToString (get_prop params key)))
       (Object_keys params)"

text \<open>A Unicode scalar value: a code point that is not a surrogate.\<close>

definition isScalarValue :: "nat \<Rightarrow> bool" where
  "isScalarValue cp = (cp < 0x110000 \<and> \<not> (0xD800 \<le> cp \<and> cp \<le> 0xDFFF))"

text \<open>The characters an encoded string is made of.\<close>

definition isEncodedChar :: "code_unit \<Rightarrow> bool" where
  "isEncodedChar c = (uriUnescaped c \<or> c = percentSign)"

text \<open>
  The decoder the round trip is stated with: \<open>decodeURIComponent\<close> of ECMAScript
  (abstract operation Decode with an empty reserved set), \<open>None\<close> where it throws a
  URIError. An escape \<open>%XX\<close> below \<open>0x80\<close> is that code unit; a lead octet announces a
  sequence of two to four escaped octets, which must be the UTF-8 encoding of a code
  point and is written in UTF-16.
\<close>

definition hexValue :: "code_unit \<Rightarrow> nat option" where
  "hexValue c =
     (let n = unat c in
      if 0x30 \<le> n \<and> n \<le> 0x39 then Some (n - 0x30)
      else if 0x41 \<le> n \<and> n \<le> 0x46 then Some (n - 0x41 + 10)
      else if 0x61 \<le> n \<and> n \<le> 0x66 then Some (n - 0x61 + 10)
      else None)"

definition parseHexOctet :: "code_unit \<Rightarrow> code_unit \<Rightarrow> nat option" where
  "parseHexOctet h l =
     (case (hexValue h, hexValue l) of (Some x, Some y) \<Rightarrow> Some (16 * x + y) | _ \<Rightarrow> None)"

fun readOctet :: "jsstring \<Rightarrow> (nat \<times> jsstring) option" where
  "readOctet (p # h # l # rest) =
     (if p = percentSign then map_option (\<lambda>b. (b, rest)) (parseHexOctet h l) else None)"
| "readOctet _ = None"

fun readOctets :: "nat \<Rightarrow> jsstring \<Rightarrow> (nat list \<times> jsstring) option" where
  "readOctets 0 s = Some ([], s)"
| "readOctets (Suc k) s =
     (case readOctet s of
        None \<Rightarrow> None
      | Some (b, rest) \<Rightarrow>
          (case readOctets k rest of
             None \<Rightarrow> None
           | Some (bs, rest') \<Rightarrow> Some (b # bs, rest')))"

definition isContinuation :: "nat \<Rightarrow> bool" where
  "isContinuation b = (0x80 \<le> b \<and> b < 0xC0)"

fun utf8Decode :: "nat list \<Rightarrow> nat option" where
  "utf8Decode [b0] = (if b0 < 0x80 then Some b0 else None)"
| "utf8Decode [b0, b1] =
     (let cp = (b0 - 0xC0) * 0x40 + (b1 - 0x80) in
      if 0xC0 \<le> b0 \<and> b0 < 0xE0 \<and> isContinuation b1 \<and> 0x80 \<le> cp then Some cp else None)"
| "utf8Decode [b0, b1, b2] =
     (let cp = (b0 - 0xE0) * 0x1000 + (b1 - 0x80) * 0x40 + (b2 - 0x80) in
      if 0xE0 \<le> b0 \<and> b0 < 0xF0 \<and> isContinuation b1 \<and> isContinuation b2 \<and> 0x800 \<le> cp \<and>
         \<not> (0xD800 \<le> cp \<and> cp \<le> 0xDFFF)
      then Some cp else None)"
| "utf8Decode [b0, b1, b2, b3] =
     (let cp = (b0 - 0xF0) * 0x40000 + (b1 - 0x80) * 0x1000 + (b2 - 0x80) * 0x40 + (b3 - 0x80) in
      if 0xF0 \<le> b0 \<and> b0 < 0xF8 \<and> isContinuation b1 \<and> isContinuation b2 \<and> isContinuation b3 \<and>
         0x10000 \<le> cp \<and> cp \<le> 0x10FFFF
      then Some cp else None)"
| "utf8Decode _ = None"

definition utf16Encode :: "nat \<Rightarrow> jsstring" where
  "utf16Encode cp =
     (if cp < 0x10000 then [of_nat cp]
      else [of_nat (0xD800 + (cp - 0x10000) div 0x400), of_nat (0xDC00 + (cp - 0x10000) mod 0x400)])"

definition leadingOnes :: "nat \<Rightarrow> nat" where
  "leadingOnes b =
     (if b < 0x80 then 0 else if b < 0xC0 then 1 else if b < 0xE0 then 2
      else if b < 0xF0 then 3 else if b < 0xF8 then 4 else 5)"

function decodeURIComponent :: "jsstring \<Rightarrow> jsstring option" where
  "decodeURIComponent [] = Some []"
| "decodeURIComponent (c # cs) =
     (if c \<noteq> percentSign then map_option ((#) c) (decodeURIComponent cs)
      else
        (case readOctet (c # cs) of
           None \<Rightarrow> None
         | Some (b, rest) \<Rightarrow>
             if leadingOnes b = 0 then map_option ((#) (of_nat b)) (decodeURIComponent rest)
             else if leadingOnes b = 1 \<or> 4 < leadingOnes b then None
             else
               (case readOctets (leadingOnes b - 1) rest of
                  None \<Rightarrow> None
                | Some (bs, rest') \<Rightarrow>
                    (case utf8Decode (b # bs) of
                       None \<Rightarrow> None
                     | Some cp \<Rightarrow>
                         map_option ((@) (utf16Encode cp)) (decodeURIComponent rest')))))"
  by pat_completeness auto

text \<open>
  Reading a query string back: without its leading separator it is split at every
  ampersand, each piece at its first equals sign, and both sides are decoded.
\<close>

fun splitOn :: "code_unit \<Rightarrow> jsstring \<Rightarrow> jsstring list" where
  "splitOn sep [] = [[]]"
| "splitOn sep (c # cs) =
     (if c = sep then [] # splitOn sep cs
      else (c # hd (splitOn sep cs)) # tl (splitOn sep cs))"

definition decodePair :: "jsstring \<Rightarrow> (jsstring \<times> jsstring) option" where
  "decodePair s =
     (case (decodeURIComponent (takeWhile (\<lambda>c. c \<noteq> equalsSign) s),
            decodeURIComponent (drop 1 (dropWhile (\<lambda>c. c \<noteq> equalsSign) s))) of
        (Some k, Some v) \<Rightarrow> Some (k, v)
      | _ \<Rightarrow> None)"

definition decodeQuery :: "jsstring \<Rightarrow> (jsstring \<times> jsstring) list option" where
  "decodeQuery queryString =
     (case queryString of
        [] \<Rightarrow> Some []
      | separator # rest \<Rightarrow> those (map decodePair (splitOn ampersand rest)))"

subsection \<open>Validation\<close>

text \<open>
  \<open>acceptsBaseUrl URL w b\<close>: the checks of \<open>validateInputs\<close> on \<open>baseUrl\<close> pass for the
  string \<open>b\<close>.
\<close>

definition acceptsBaseUrl :: "url_parser \<Rightarrow> world \<Rightarrow> jsstring \<Rightarrow> bool" where
  "acceptsBaseUrl URL w b =
     (trim b \<noteq> [] \<and>
      (case window w of
         None \<Rightarrow> False
       | Some origin \<Rightarrow>
           URL b (Some origin) = Some (js ''http:'') \<or> URL b (Some origin) = Some (js ''https:'')))"

text \<open>Every key before the first offending one is not blank and has a string value.\<close>

definition acceptsKeys :: "(jsstring \<times> jsval) list \<Rightarrow> jsstring list \<Rightarrow> bool" where
  "acceptsKeys params keys =
     list_all (\<lambda>k. trim k \<noteq> [] \<and> (case get_prop params k of String v \<Rightarrow> True | _ \<Rightarrow> False)) keys"

text \<open>
  The same for the loader of the second file: the checks on \<open>baseUrl\<close> pass, and
  every key before the first offending one has a string value.
\<close>

definition acceptsBaseUrl_loose :: "url_parser \<Rightarrow> jsstring \<Rightarrow> bool" where
  "acceptsBaseUrl_loose URL b =
     (trim b \<noteq> [] \<and>
      \<not> ((startsWith b (js ''http'') \<or> startsWith b (js ''https'')) \<and> URL b None = None))"

definition acceptsValues :: "(jsstring \<times> jsval) list \<Rightarrow> jsstring list \<Rightarrow> bool" where
  "acceptsValues params keys =
     list_all (\<lambda>k. case get_prop params k of String v \<Rightarrow> True | _ \<Rightarrow> False) keys"

subsection \<open>Outcomes of a call\<close>

text \<open>
  \<open>alreadyRejected e w\<close> is the result of a call that returns a fresh promise already
  rejected with \<open>e\<close> and changes nothing else: no element, no child of \<open>head\<close>, no
  timer, no listener.
\<close>

definition alreadyRejected :: "js_error \<Rightarrow> world \<Rightarrow> (js_error + nat) \<times> world" where
  "alreadyRejected e w = (Inr (length (promises w)), w\<lparr>promises := promises w @ [Rejected e]\<rparr>)"

text \<open>The script element a call creates for \<open>url\<close>, before any listener is attached.\<close>

definition scriptNode :: "jsstring \<Rightarrow> element" where
  "scriptNode url = \<lparr>tagName = js ''script'', src = url, async = True, listeners = []\<rparr>"

text \<open>The variables the closures of a call made in world \<open>w\<close> capture.\<close>

definition raceClosure :: "jsstring \<Rightarrow> world \<Rightarrow> invocation" where
  "raceClosure url w =
     \<lparr>scriptElement = length (elements w), timeout = length (timers w),
      promise = length (promises w), constructedUrl = url\<rparr>"








subsection \<open>Further examples\<close>

text \<open>
  A page without \<open>head\<close>, a page whose origin is opaque, the URL of the spec's
  scenario with a disallowed scheme, a parameter object with a blank key, and the request
  of the spec's success scenario.
\<close>

definition no_head_page :: world where
  "no_head_page = example_page\<lparr>head := None\<rparr>"

definition opaque_origin_page :: world where
  "opaque_origin_page = example_page\<lparr>window := Some (js ''null'')\<rparr>"

definition javascript_url :: jsstring where
  "javascript_url = js ''javascript:alert(1)''"

definition blank_key_params :: jsval where
  "blank_key_params = Object [(js '' '', String (js ''2''))]"




text \<open>
  A parameter object with reserved characters, a space and non-ASCII characters (a euro
  sign and a character outside the basic plane), and one whose key is half of a
  surrogate pair.
\<close>

definition reserved_params :: "(jsstring \<times> jsval) list" where
  "reserved_params =
     [(js ''a b'', String (js ''c&d=e?'')), (js ''k'', String [0x20AC, 0xD83D, 0xDE00])]"

definition reserved_request :: jsstring where
  "reserved_request =
     js ''https://cdn.example.com/widget.js?a%20b=c%26d%3De%3F&k=%E2%82%AC%F0%9F%98%80''"

definition lone_surrogate_params :: "(jsstring \<times> jsval) list" where
  "lone_surrogate_params = [([0xD83D], String (js ''1''))]"

text \<open>Two parameters, the second with a space, and a base URL that already has a query.\<close>

definition two_params :: "(jsstring \<times> jsval) list" where
  "two_params = [(js ''v'', String (js ''2'')), (js ''q'', String (js ''a b''))]"

definition query_url :: jsstring where
  "query_url = js ''/widget.js?x=1''"

subsection \<open>What the environment decides\<close>

text \<open>
  The outcome of the one check of \<open>validateInputs\<close> that looks at the environment, the
  \<open>try\<close> block around \<open>new URL(baseUrl, window.location.origin)\<close>: the constructor
  throws or there is no window, the protocol is refused, or the check passes.
\<close>

datatype verdict = Unparseable | WrongProtocol | Accepted

definition baseUrlVerdict :: "url_parser \<Rightarrow> world \<Rightarrow> jsstring \<Rightarrow> verdict" where
  "baseUrlVerdict URL w b =
     (case (case window w of None \<Rightarrow> None | Some origin \<Rightarrow> URL b (Some origin)) of
        None \<Rightarrow> Unparseable
      | Some protocol \<Rightarrow>
          if protocol \<noteq> js ''http:'' \<and> protocol \<noteq> js ''https:'' then WrongProtocol
          else Accepted)"


section \<open>Termination of the decoder\<close>

lemma readOctet_shorter: "readOctet s = Some (b, rest) \<Longrightarrow> length rest < length s"
  by (induction s rule: readOctet.induct) (auto split: if_splits)

lemma readOctets_shorter: "readOctets k s = Some (bs, rest) \<Longrightarrow> length rest \<le> length s"
proof (induction k arbitrary: s bs)
  case 0
  then show ?case by simp
next
  case (Suc k)
  then show ?case
    by (fastforce split: option.splits prod.splits dest: readOctet_shorter)
qed

termination decodeURIComponent
proof (relation "measure length")
  show "wf (measure length)" by simp
next
  fix c :: code_unit and cs
  show "(cs, c # cs) \<in> measure length" by simp
next
  fix c :: code_unit and cs x2 b rest
  assume "readOctet (c # cs) = Some x2" "(b, rest) = x2"
  then show "(rest, c # cs) \<in> measure length"
    using readOctet_shorter [of "c # cs" b rest] by simp
next
  fix c :: code_unit and cs x2 b rest x2a bs rest' x2b
  assume "readOctet (c # cs) = Some x2" "(b, rest) = x2"
    "readOctets (leadingOnes b - 1) rest = Some x2a" "(bs, rest') = x2a"
  then show "(rest', c # cs) \<in> measure length"
    using readOctet_shorter [of "c # cs" b rest]
      readOctets_shorter [of "leadingOnes b - 1" rest bs rest'] by simp
qed

section \<open>Evaluating examples\<close>



lemmas builder_defs =
  generateUrl_def generateUrl_loose_def validateInputs_def buildQuery_def Object_keys_def
  get_prop_def str_includes_def trim_def isWhiteSpace_def js_def prepend_def
  questionMark_def ampersand_def equalsSign_def percentSign_def plusSign_def
  uriUnescaped_def isLeadSurrogate_def isTrailSurrogate_def surrogatePairToCodePoint_def
  escapeCodePoint_def utf8_def escapeOctet_def hexDigit_def uriMalformed_def

lemmas example_defs =
  example_URL_def example_page_def no_window_def widget_url_def schemeOf_def
  isAsciiAlpha_def isSchemeChar_def toAsciiLower_def


section \<open>The URL builder\<close>

lemma validateInputs_Valid:
  "validateInputs URL w baseUrl queryParamsObject = Valid \<longleftrightarrow>
     (\<exists>b params origin protocol. baseUrl = String b \<and> queryParamsObject = Object params \<and>
        trim b \<noteq> [] \<and> window w = Some origin \<and> URL b (Some origin) = Some protocol \<and>
        (protocol = js ''http:'' \<or> protocol = js ''https:'') \<and>
        validateParams params (Object_keys params) = Valid)"
  by (auto simp: validateInputs_def split: jsval.splits option.splits if_splits)

lemma generateUrl_Inr:
  "generateUrl URL w baseUrl queryParamsObject = Inr url \<longleftrightarrow>
     (\<exists>b params. baseUrl = String b \<and> queryParamsObject = Object params \<and>
        validateInputs URL w baseUrl queryParamsObject = Valid \<and> buildQuery b params = Inr url)"
proof (cases "validateInputs URL w baseUrl queryParamsObject")
  case Valid
  then obtain b params where "baseUrl = String b" "queryParamsObject = Object params"
    by (auto simp: validateInputs_Valid)
  with Valid show ?thesis by (simp add: generateUrl_def)
next
  case (Invalid e)
  then show ?thesis by (simp add: generateUrl_def)
qed

lemma validateParams_checkValues:
  "validateParams params keys = Valid \<Longrightarrow> checkValues name params keys = None"
  by (induction keys) (auto split: if_splits jsval.splits)

lemma generateUrl_loose_Inr:
  "generateUrl_loose baseUrl queryParamsObject = Inr url \<longleftrightarrow>
     (\<exists>b params. baseUrl = String b \<and> queryParamsObject = Object params \<and> trim b \<noteq> [] \<and>
        checkValues (js ''queryParamsObject'') params (Object_keys params) = None \<and>
        buildQuery b params = Inr url)"
  by (auto simp: generateUrl_loose_def split: jsval.splits option.splits if_splits)

lemma reduceKeys_shape:
  "reduceKeys params fs keys index acc = Inr q \<Longrightarrow>
     \<exists>es. list_all2 (isEncodedPair params) keys es \<and>
          q = acc @ joinPairs (if index = 0 then fs else ampersand) es"
proof (induction keys arbitrary: index acc q)
  case Nil
  then show ?case by (simp add: joinPairs_def)
next
  case (Cons key keys)
  from Cons.prems obtain ek ev where
    ek: "encodeURIComponent key = Inr ek" and
    ev: "encodeURIComponent (ToString (get_prop params key)) = Inr ev" and
    rest: "reduceKeys params fs keys (Suc index)
             (acc @ [if index = 0 then fs else ampersand] @ ek @ [equalsSign] @ ev) = Inr q"
    by (auto split: sum.splits)
  from Cons.IH [OF rest] obtain es where
    es: "list_all2 (isEncodedPair params) keys es" and
    q: "q = (acc @ [if index = 0 then fs else ampersand] @ ek @ [equalsSign] @ ev) @
            joinPairs ampersand es"
    by auto
  have "isEncodedPair params key (ek @ [equalsSign] @ ev)"
    using ek ev by (auto simp: isEncodedPair_def encodePair_def split: sum.splits)
  with es have "list_all2 (isEncodedPair params) (key # keys) ((ek @ [equalsSign] @ ev) # es)"
    by simp
  moreover have "q = acc @ joinPairs (if index = 0 then fs else ampersand)
                         ((ek @ [equalsSign] @ ev) # es)"
    using q by (cases es) (simp_all add: joinPairs_def)
  ultimately show ?case by blast
qed

lemma buildQuery_shape:
  assumes "buildQuery b params = Inr url" and "params \<noteq> []"
  shows "\<exists>es. list_all2 (isEncodedPair params) (Object_keys params) es \<and>
           url = b @ joinPairs (if questionMark \<in> set b then ampersand else questionMark) es"
proof -
  from assms obtain q where
    q: "reduceKeys params (if questionMark \<in> set b then ampersand else questionMark)
          (Object_keys params) 0 [] = Inr q" and url: "url = b @ q"
    by (auto simp: buildQuery_def Let_def Object_keys_def str_includes_def
             split: sum.splits if_splits)
  from reduceKeys_shape [OF q] url show ?thesis by auto
qed

text \<open>
  C5, as amended. For every \<open>baseUrl\<close> that passes the validation of the builder, the
  builder applied to an empty parameter object returns \<open>baseUrl\<close> itself: in
  \<open>src/index.ts\<close> when \<open>validateInputs\<close> accepts it, in the second file when it is not
  blank. On any other \<open>baseUrl\<close> the builder throws the error of the validation.
\<close>

theorem no_params_pass_through:
  "(validateInputs URL w (String b) (Object []) = Valid \<longrightarrow>
      generateUrl URL w (String b) (Object []) = Inr b) \<and>
   (validateInputs URL w (String b) (Object []) = Invalid e \<longrightarrow>
      generateUrl URL w (String b) (Object []) = Inl e) \<and>
   (trim b \<noteq> [] \<longrightarrow> generateUrl_loose (String b) (Object []) = Inr b) \<and>
   (trim b = [] \<longrightarrow>
      generateUrl_loose (String b) (Object []) = Inl (Error (js ''baseUrl cannot be empty'')))"
  by (simp add: generateUrl_def generateUrl_loose_def buildQuery_def Object_keys_def)

theorem no_params_pass_through_witness:
  "validateInputs example_URL example_page (String widget_url) (Object []) = Valid \<and>
   generateUrl example_URL example_page (String widget_url) (Object []) = Inr widget_url \<and>
   trim widget_url \<noteq> [] \<and>
   generateUrl_loose (String widget_url) (Object []) = Inr widget_url"
proof -
  have v: "validateInputs example_URL example_page (String widget_url) (Object []) = Valid"
    by (simp add: builder_defs example_defs)
  have t: "trim widget_url \<noteq> []"
    by (simp add: builder_defs example_defs)
  from v t no_params_pass_through [of example_URL example_page widget_url]
  show ?thesis by simp
qed

text \<open>
  C5 as stated fails: the empty string is a \<open>baseUrl\<close>, and on it the builder of either
  file throws instead of returning it.
\<close>

theorem no_params_pass_through_counterexample:
  "generateUrl example_URL example_page (String []) (Object []) =
     Inl (Error (js ''baseUrl cannot be empty'')) \<and>
   generateUrl_loose (String []) (Object []) = Inl (Error (js ''baseUrl cannot be empty''))"
  by (simp add: generateUrl_def generateUrl_loose_def validateInputs_def trim_def)

text \<open>
  C10. On inputs on which the builders of both files return, they return the same
  string.
\<close>

theorem variants_agree:
  assumes "generateUrl URL w baseUrl queryParamsObject = Inr u1"
    and "generateUrl_loose baseUrl queryParamsObject = Inr u2"
  shows "u1 = u2"
  using assms by (auto simp: generateUrl_Inr generateUrl_loose_Inr)

theorem variants_agree_witness:
  "generateUrl example_URL example_page (String widget_url) (Object [(js ''v'', String (js ''2''))]) =
     Inr (js ''https://cdn.example.com/widget.js?v=2'') \<and>
   generateUrl_loose (String widget_url) (Object [(js ''v'', String (js ''2''))]) =
     Inr (js ''https://cdn.example.com/widget.js?v=2'') \<and>
   js ''https://cdn.example.com/widget.js?v=2'' = js ''https://cdn.example.com/widget.js?v=2''"
proof -
  have a: "generateUrl example_URL example_page (String widget_url)
             (Object [(js ''v'', String (js ''2''))]) =
           Inr (js ''https://cdn.example.com/widget.js?v=2'')"
    by (simp add: builder_defs example_defs)
  have b: "generateUrl_loose (String widget_url) (Object [(js ''v'', String (js ''2''))]) =
           Inr (js ''https://cdn.example.com/widget.js?v=2'')"
    by (simp add: builder_defs example_defs)
  from a b variants_agree [OF a b] show ?thesis by simp
qed


section \<open>The loader: fast failures\<close>


lemma injectScript_no_head:
  "head w = None \<Longrightarrow>
   injectScript url w =
     (length (promises w),
      w\<lparr>elements := elements w @ [scriptNode url],
        promises := promises w @ [Rejected (Error (js ''No <head> element found in document''))]\<rparr>)"
  by (simp add: injectScript_def createElement_def set_src_def set_async_def update_element_def
      Promise_reject_def scriptNode_def Let_def)

lemma injectScript_head:
  "head w = Some children \<Longrightarrow>
   injectScript url w =
     (length (promises w),
      w\<lparr>elements := elements w @
          [(scriptNode url)\<lparr>listeners := [(LoadEvent, OnLoad (raceClosure url w)),
                                          (ErrorEvent, OnError (raceClosure url w))]\<rparr>],
        head := Some (children @ [length (elements w)]),
        timers := timers w @
          [\<lparr>handler = OnTimeout (raceClosure url w), delay = 2000, pending = True\<rparr>],
        promises := promises w @ [Pending]\<rparr>)"
  by (simp add: injectScript_def createElement_def set_src_def set_async_def update_element_def
      new_Promise_def setTimeout_def addEventListener_def insertAdjacentElement_beforeend_def
      scriptNode_def raceClosure_def timeoutDuration_def Let_def)

lemma loader_no_window:
  "window w = None \<Longrightarrow>
   asyncScriptLoader URL baseUrl params w =
     alreadyRejected (Error (js ''asyncScriptLoader requires a browser environment'')) w"
  by (simp add: asyncScriptLoader_def Promise_reject_def alreadyRejected_def)

lemma loader_invalid:
  "window w = Some origin \<Longrightarrow> validateInputs URL w baseUrl params = Invalid e \<Longrightarrow>
   asyncScriptLoader URL baseUrl params w = alreadyRejected e w"
  by (simp add: asyncScriptLoader_def Promise_reject_def alreadyRejected_def)

lemma loader_valid:
  "window w = Some origin \<Longrightarrow> generateUrl URL w baseUrl params = Inr url \<Longrightarrow>
   asyncScriptLoader URL baseUrl params w =
     (Inr (fst (injectScript url w)), snd (injectScript url w))"
proof -
  assume win: "window w = Some origin" and gen: "generateUrl URL w baseUrl params = Inr url"
  from gen have "validateInputs URL w baseUrl params = Valid"
    by (auto simp: generateUrl_Inr)
  with win gen show ?thesis
    by (simp add: asyncScriptLoader_def split: prod.splits)
qed

lemma validateParams_first_bad_value:
  assumes "acceptsKeys params pre" and "trim key \<noteq> []"
    and "\<forall>s. get_prop params key \<noteq> String s"
  shows "validateParams params (pre @ key # post) =
           Invalid (TypeError (js ''queryParamsObject value for key \"'' @ key @
                               js ''\" must be a string''))"
  using assms
  by (induction pre) (auto simp: acceptsKeys_def split: jsval.splits)

lemma validateParams_first_blank_key:
  assumes "acceptsKeys params pre" and "trim key = []"
  shows "validateParams params (pre @ key # post) =
           Invalid (Error (js ''queryParamsObject keys cannot be empty''))"
  using assms
  by (induction pre) (auto simp: acceptsKeys_def split: jsval.splits)

lemma validateInputs_params:
  "acceptsBaseUrl URL w b \<Longrightarrow>
   validateInputs URL w (String b) params =
     (case params of
        Null \<Rightarrow> Invalid (TypeError (js ''queryParamsObject must be an object''))
      | Undefined \<Rightarrow> Invalid (TypeError (js ''queryParamsObject must be an object''))
      | Object ps \<Rightarrow> validateParams ps (Object_keys ps)
      | _ \<Rightarrow> Invalid (TypeError (js ''queryParamsObject must be a plain object'')))"
  by (auto simp: acceptsBaseUrl_def validateInputs_def split: option.splits)

lemma checkValues_name:
  "checkValues name params keys = None \<Longrightarrow> checkValues name' params keys = None"
  by (induction keys) (auto split: jsval.splits)

lemma checkValues_first_bad_value:
  assumes "acceptsValues params pre" and "\<forall>s. get_prop params key \<noteq> String s"
  shows "checkValues name params (pre @ key # post) =
           Some (TypeError (name @ js '' value for key \"'' @ key @ js ''\" must be a string''))"
  using assms
  by (induction pre) (auto simp: acceptsValues_def split: jsval.splits)

lemma loader_loose_params:
  "acceptsBaseUrl_loose URL b \<Longrightarrow>
   asyncScriptLoader_loose URL (String b) params w =
     (case params of
        Null \<Rightarrow> alreadyRejected (TypeError (js ''queryParamObject must be an object'')) w
      | Undefined \<Rightarrow> alreadyRejected (TypeError (js ''queryParamObject must be an object'')) w
      | Object ps \<Rightarrow>
          (case checkValues (js ''queryParamObject'') ps (Object_keys ps) of
             Some e \<Rightarrow> alreadyRejected e w
           | None \<Rightarrow>
               (case generateUrl_loose (String b) (Object ps) of
                  Inl e \<Rightarrow> (Inl e, w)
                | Inr url \<Rightarrow> (Inr (fst (injectScript url w)), snd (injectScript url w))))
      | _ \<Rightarrow> alreadyRejected (TypeError (js ''queryParamObject must be a plain object'')) w)"
  by (auto simp: acceptsBaseUrl_loose_def asyncScriptLoader_loose_def Promise_reject_def
      alreadyRejected_def split: jsval.splits option.splits sum.splits prod.splits)

lemma loader_loose_accepts:
  assumes "acceptsBaseUrl_loose URL b" and "generateUrl_loose (String b) (Object ps) = Inr url"
  shows "asyncScriptLoader_loose URL (String b) (Object ps) w =
           (Inr (fst (injectScript url w)), snd (injectScript url w))"
proof -
  from assms(2) have "checkValues (js ''queryParamsObject'') ps (Object_keys ps) = None"
    by (auto simp: generateUrl_loose_def split: if_splits option.splits)
  then have "checkValues (js ''queryParamObject'') ps (Object_keys ps) = None"
    by (rule checkValues_name)
  with assms show ?thesis
    by (simp add: loader_loose_params)
qed

text \<open>
  C1, as amended. In a browser, \<open>asyncScriptLoader\<close> of \<open>src/index.ts\<close> answers every
  input that \<open>validateInputs\<close> refuses with a promise already rejected with the error of
  the validation, and changes nothing else in the world (no element is created). A
  \<open>baseUrl\<close> that is not a string, a blank \<open>baseUrl\<close>, a \<open>baseUrl\<close> whose protocol is
  neither \<open>http:\<close> nor \<open>https:\<close> (\<open>javascript:alert(1)\<close> among them), \<open>null\<close>
  parameters, array parameters, a first offending key with a value that is not a string,
  and a first offending key that is blank, each get the error named here; the seven
  errors are pairwise different.

  The loader of the second file answers in the same way, with its own five errors, a
  \<open>baseUrl\<close> that is not a string, a blank \<open>baseUrl\<close>, \<open>null\<close> parameters, array
  parameters and a first key with a value that is not a string. It has no check of the
  protocol and none of the keys: whenever its builder returns a URL, for
  \<open>javascript:alert(1)\<close> or for a blank key as for any other input, it goes on to
  create and insert the script element.
\<close>

theorem validation_rejection_set:
  "(window w = Some origin \<longrightarrow>
      (validateInputs URL w baseUrl params = Invalid e \<longrightarrow>
         asyncScriptLoader URL baseUrl params w = alreadyRejected e w) \<and>
      ((\<forall>s. baseUrl \<noteq> String s) \<longrightarrow>
         asyncScriptLoader URL baseUrl params w =
           alreadyRejected (TypeError (js ''baseUrl must be a string'')) w) \<and>
      (trim b = [] \<longrightarrow>
         asyncScriptLoader URL (String b) params w =
           alreadyRejected (Error (js ''baseUrl cannot be empty'')) w) \<and>
      (trim b \<noteq> [] \<and> URL b (Some origin) = Some protocol \<and>
       protocol \<noteq> js ''http:'' \<and> protocol \<noteq> js ''https:'' \<longrightarrow>
         asyncScriptLoader URL (String b) params w =
           alreadyRejected (Error (js ''baseUrl must use http: or https: protocol'')) w) \<and>
      (URL javascript_url (Some origin) = Some (js ''javascript:'') \<longrightarrow>
         asyncScriptLoader URL (String javascript_url) (Object []) w =
           alreadyRejected (Error (js ''baseUrl must use http: or https: protocol'')) w) \<and>
      (acceptsBaseUrl URL w b \<longrightarrow>
         asyncScriptLoader URL (String b) Null w =
           alreadyRejected (TypeError (js ''queryParamsObject must be an object'')) w) \<and>
      (acceptsBaseUrl URL w b \<longrightarrow>
         asyncScriptLoader URL (String b) (Array xs) w =
           alreadyRejected (TypeError (js ''queryParamsObject must be a plain object'')) w) \<and>
      (acceptsBaseUrl URL w b \<and> Object_keys ps = pre @ key # post \<and> acceptsKeys ps pre \<and>
       trim key \<noteq> [] \<and> (\<forall>s. get_prop ps key \<noteq> String s) \<longrightarrow>
         asyncScriptLoader URL (String b) (Object ps) w =
           alreadyRejected (TypeError (js ''queryParamsObject value for key \"'' @ key @
                                       js ''\" must be a string'')) w) \<and>
      (acceptsBaseUrl URL w b \<and> Object_keys ps = pre @ key # post \<and> acceptsKeys ps pre \<and>
       trim key = [] \<longrightarrow>
         asyncScriptLoader URL (String b) (Object ps) w =
           alreadyRejected (Error (js ''queryParamsObject keys cannot be empty'')) w)) \<and>
   distinct
     [TypeError (js ''baseUrl must be a string''),
      Error (js ''baseUrl cannot be empty''),
      Error (js ''baseUrl must use http: or https: protocol''),
      TypeError (js ''queryParamsObject must be an object''),
      TypeError (js ''queryParamsObject must be a plain object''),
      TypeError (js ''queryParamsObject value for key \"'' @ key @ js ''\" must be a string''),
      Error (js ''queryParamsObject keys cannot be empty'')] \<and>
   ((\<forall>s. baseUrl \<noteq> String s) \<longrightarrow>
      asyncScriptLoader_loose URL baseUrl params w =
        alreadyRejected (TypeError (js ''baseUrl must be a string'')) w) \<and>
   (trim b = [] \<longrightarrow>
      asyncScriptLoader_loose URL (String b) params w =
        alreadyRejected (Error (js ''baseUrl cannot be empty'')) w) \<and>
   (acceptsBaseUrl_loose URL b \<longrightarrow>
      asyncScriptLoader_loose URL (String b) Null w =
        alreadyRejected (TypeError (js ''queryParamObject must be an object'')) w) \<and>
   (acceptsBaseUrl_loose URL b \<longrightarrow>
      asyncScriptLoader_loose URL (String b) (Array xs) w =
        alreadyRejected (TypeError (js ''queryParamObject must be a plain object'')) w) \<and>
   (acceptsBaseUrl_loose URL b \<and> Object_keys ps = pre @ key # post \<and> acceptsValues ps pre \<and>
    (\<forall>s. get_prop ps key \<noteq> String s) \<longrightarrow>
      asyncScriptLoader_loose URL (String b) (Object ps) w =
        alreadyRejected (TypeError (js ''queryParamObject value for key \"'' @ key @
                                    js ''\" must be a string'')) w) \<and>
   distinct
     [TypeError (js ''baseUrl must be a string''),
      Error (js ''baseUrl cannot be empty''),
      TypeError (js ''queryParamObject must be an object''),
      TypeError (js ''queryParamObject must be a plain object''),
      TypeError (js ''queryParamObject value for key \"'' @ key @ js ''\" must be a string'')] \<and>
   (acceptsBaseUrl_loose URL b \<and> generateUrl_loose (String b) (Object ps) = Inr url \<longrightarrow>
      asyncScriptLoader_loose URL (String b) (Object ps) w =
        (Inr (fst (injectScript url w)), snd (injectScript url w)))"
proof -
  have strict: "window w = Some origin \<longrightarrow>
      (validateInputs URL w baseUrl params = Invalid e \<longrightarrow>
         asyncScriptLoader URL baseUrl params w = alreadyRejected e w) \<and>
      ((\<forall>s. baseUrl \<noteq> String s) \<longrightarrow>
         asyncScriptLoader URL baseUrl params w =
           alreadyRejected (TypeError (js ''baseUrl must be a string'')) w) \<and>
      (trim b = [] \<longrightarrow>
         asyncScriptLoader URL (String b) params w =
           alreadyRejected (Error (js ''baseUrl cannot be empty'')) w) \<and>
      (trim b \<noteq> [] \<and> URL b (Some origin) = Some protocol \<and>
       protocol \<noteq> js ''http:'' \<and> protocol \<noteq> js ''https:'' \<longrightarrow>
         asyncScriptLoader URL (String b) params w =
           alreadyRejected (Error (js ''baseUrl must use http: or https: protocol'')) w) \<and>
      (URL javascript_url (Some origin) = Some (js ''javascript:'') \<longrightarrow>
         asyncScriptLoader URL (String javascript_url) (Object []) w =
           alreadyRejected (Error (js ''baseUrl must use http: or https: protocol'')) w) \<and>
      (acceptsBaseUrl URL w b \<longrightarrow>
         asyncScriptLoader URL (String b) Null w =
           alreadyRejected (TypeError (js ''queryParamsObject must be an object'')) w) \<and>
      (acceptsBaseUrl URL w b \<longrightarrow>
         asyncScriptLoader URL (String b) (Array xs) w =
           alreadyRejected (TypeError (js ''queryParamsObject must be a plain object'')) w) \<and>
      (acceptsBaseUrl URL w b \<and> Object_keys ps = pre @ key # post \<and> acceptsKeys ps pre \<and>
       trim key \<noteq> [] \<and> (\<forall>s. get_prop ps key \<noteq> String s) \<longrightarrow>
         asyncScriptLoader URL (String b) (Object ps) w =
           alreadyRejected (TypeError (js ''queryParamsObject value for key \"'' @ key @
                                       js ''\" must be a string'')) w) \<and>
      (acceptsBaseUrl URL w b \<and> Object_keys ps = pre @ key # post \<and> acceptsKeys ps pre \<and>
       trim key = [] \<longrightarrow>
         asyncScriptLoader URL (String b) (Object ps) w =
           alreadyRejected (Error (js ''queryParamsObject keys cannot be empty'')) w)"
  proof
    assume win: "window w = Some origin"
    note rej = loader_invalid [OF win]
    have general: "validateInputs URL w baseUrl params = Invalid e \<longrightarrow>
        asyncScriptLoader URL baseUrl params w = alreadyRejected e w"
      by (simp add: rej)
    have not_string: "(\<forall>s. baseUrl \<noteq> String s) \<longrightarrow>
        asyncScriptLoader URL baseUrl params w =
          alreadyRejected (TypeError (js ''baseUrl must be a string'')) w"
    proof
      assume "\<forall>s. baseUrl \<noteq> String s"
      then have "validateInputs URL w baseUrl params =
          Invalid (TypeError (js ''baseUrl must be a string''))"
        by (cases baseUrl) (simp_all add: validateInputs_def)
      then show "asyncScriptLoader URL baseUrl params w =
          alreadyRejected (TypeError (js ''baseUrl must be a string'')) w"
        by (rule rej)
    qed
    have blank: "trim b = [] \<longrightarrow>
        asyncScriptLoader URL (String b) params w =
          alreadyRejected (Error (js ''baseUrl cannot be empty'')) w"
      by (auto intro!: rej simp: validateInputs_def)
    have scheme: "\<And>b protocol params. trim b \<noteq> [] \<and> URL b (Some origin) = Some protocol \<and>
        protocol \<noteq> js ''http:'' \<and> protocol \<noteq> js ''https:'' \<longrightarrow>
        asyncScriptLoader URL (String b) params w =
          alreadyRejected (Error (js ''baseUrl must use http: or https: protocol'')) w"
      using win by (auto intro!: rej simp: validateInputs_def)
    have javascript: "URL javascript_url (Some origin) = Some (js ''javascript:'') \<longrightarrow>
        asyncScriptLoader URL (String javascript_url) (Object []) w =
          alreadyRejected (Error (js ''baseUrl must use http: or https: protocol'')) w"
    proof
      assume u: "URL javascript_url (Some origin) = Some (js ''javascript:'')"
      have "trim javascript_url \<noteq> []"
        by (simp add: javascript_url_def js_def trim_def isWhiteSpace_def)
      moreover have "js ''javascript:'' \<noteq> js ''http:''" "js ''javascript:'' \<noteq> js ''https:''"
        by (simp_all add: js_def)
      ultimately show "asyncScriptLoader URL (String javascript_url) (Object []) w =
          alreadyRejected (Error (js ''baseUrl must use http: or https: protocol'')) w"
        using scheme [of javascript_url "js ''javascript:''" "Object []"] u by simp
    qed
    have null: "acceptsBaseUrl URL w b \<longrightarrow>
        asyncScriptLoader URL (String b) Null w =
          alreadyRejected (TypeError (js ''queryParamsObject must be an object'')) w"
      by (auto intro!: rej simp: validateInputs_params)
    have array: "acceptsBaseUrl URL w b \<longrightarrow>
        asyncScriptLoader URL (String b) (Array xs) w =
          alreadyRejected (TypeError (js ''queryParamsObject must be a plain object'')) w"
      by (auto intro!: rej simp: validateInputs_params)
    have bad_value: "acceptsBaseUrl URL w b \<and> Object_keys ps = pre @ key # post \<and>
        acceptsKeys ps pre \<and> trim key \<noteq> [] \<and> (\<forall>s. get_prop ps key \<noteq> String s) \<longrightarrow>
        asyncScriptLoader URL (String b) (Object ps) w =
          alreadyRejected (TypeError (js ''queryParamsObject value for key \"'' @ key @
                                      js ''\" must be a string'')) w"
      by (auto intro!: rej simp: validateInputs_params validateParams_first_bad_value)
    have blank_key: "acceptsBaseUrl URL w b \<and> Object_keys ps = pre @ key # post \<and>
        acceptsKeys ps pre \<and> trim key = [] \<longrightarrow>
        asyncScriptLoader URL (String b) (Object ps) w =
          alreadyRejected (Error (js ''queryParamsObject keys cannot be empty'')) w"
      by (auto intro!: rej simp: validateInputs_params validateParams_first_blank_key)
    from general not_string blank scheme [of b protocol params] javascript null array bad_value
      blank_key
    show "(validateInputs URL w baseUrl params = Invalid e \<longrightarrow>
         asyncScriptLoader URL baseUrl params w = alreadyRejected e w) \<and>
      ((\<forall>s. baseUrl \<noteq> String s) \<longrightarrow>
         asyncScriptLoader URL baseUrl params w =
           alreadyRejected (TypeError (js ''baseUrl must be a string'')) w) \<and>
      (trim b = [] \<longrightarrow>
         asyncScriptLoader URL (String b) params w =
           alreadyRejected (Error (js ''baseUrl cannot be empty'')) w) \<and>
      (trim b \<noteq> [] \<and> URL b (Some origin) = Some protocol \<and>
       protocol \<noteq> js ''http:'' \<and> protocol \<noteq> js ''https:'' \<longrightarrow>
         asyncScriptLoader URL (String b) params w =
           alreadyRejected (Error (js ''baseUrl must use http: or https: protocol'')) w) \<and>
      (URL javascript_url (Some origin) = Some (js ''javascript:'') \<longrightarrow>
         asyncScriptLoader URL (String javascript_url) (Object []) w =
           alreadyRejected (Error (js ''baseUrl must use http: or https: protocol'')) w) \<and>
      (acceptsBaseUrl URL w b \<longrightarrow>
         asyncScriptLoader URL (String b) Null w =
           alreadyRejected (TypeError (js ''queryParamsObject must be an object'')) w) \<and>
      (acceptsBaseUrl URL w b \<longrightarrow>
         asyncScriptLoader URL (String b) (Array xs) w =
           alreadyRejected (TypeError (js ''queryParamsObject must be a plain object'')) w) \<and>
      (acceptsBaseUrl URL w b \<and> Object_keys ps = pre @ key # post \<and> acceptsKeys ps pre \<and>
       trim key \<noteq> [] \<and> (\<forall>s. get_prop ps key \<noteq> String s) \<longrightarrow>
         asyncScriptLoader URL (String b) (Object ps) w =
           alreadyRejected (TypeError (js ''queryParamsObject value for key \"'' @ key @
                                       js ''\" must be a string'')) w) \<and>
      (acceptsBaseUrl URL w b \<and> Object_keys ps = pre @ key # post \<and> acceptsKeys ps pre \<and>
       trim key = [] \<longrightarrow>
         asyncScriptLoader URL (String b) (Object ps) w =
           alreadyRejected (Error (js ''queryParamsObject keys cannot be empty'')) w)"
      by blast
  qed
  have different: "distinct
       [TypeError (js ''baseUrl must be a string''),
        Error (js ''baseUrl cannot be empty''),
        Error (js ''baseUrl must use http: or https: protocol''),
        TypeError (js ''queryParamsObject must be an object''),
        TypeError (js ''queryParamsObject must be a plain object''),
        TypeError (js ''queryParamsObject value for key \"'' @ key @ js ''\" must be a string''),
        Error (js ''queryParamsObject keys cannot be empty'')]"
    by (simp add: js_def)
  have l_not_string: "(\<forall>s. baseUrl \<noteq> String s) \<longrightarrow>
      asyncScriptLoader_loose URL baseUrl params w =
        alreadyRejected (TypeError (js ''baseUrl must be a string'')) w"
    by (cases baseUrl)
       (simp_all add: asyncScriptLoader_loose_def Promise_reject_def alreadyRejected_def)
  have l_blank: "trim b = [] \<longrightarrow>
      asyncScriptLoader_loose URL (String b) params w =
        alreadyRejected (Error (js ''baseUrl cannot be empty'')) w"
    by (simp add: asyncScriptLoader_loose_def Promise_reject_def alreadyRejected_def)
  have l_null: "acceptsBaseUrl_loose URL b \<longrightarrow>
      asyncScriptLoader_loose URL (String b) Null w =
        alreadyRejected (TypeError (js ''queryParamObject must be an object'')) w"
    by (simp add: loader_loose_params)
  have l_array: "acceptsBaseUrl_loose URL b \<longrightarrow>
      asyncScriptLoader_loose URL (String b) (Array xs) w =
        alreadyRejected (TypeError (js ''queryParamObject must be a plain object'')) w"
    by (simp add: loader_loose_params)
  have l_bad_value: "acceptsBaseUrl_loose URL b \<and> Object_keys ps = pre @ key # post \<and>
      acceptsValues ps pre \<and> (\<forall>s. get_prop ps key \<noteq> String s) \<longrightarrow>
      asyncScriptLoader_loose URL (String b) (Object ps) w =
        alreadyRejected (TypeError (js ''queryParamObject value for key \"'' @ key @
                                    js ''\" must be a string'')) w"
    by (simp add: loader_loose_params checkValues_first_bad_value js_def)
  have l_different: "distinct
     [TypeError (js ''baseUrl must be a string''),
      Error (js ''baseUrl cannot be empty''),
      TypeError (js ''queryParamObject must be an object''),
      TypeError (js ''queryParamObject must be a plain object''),
      TypeError (js ''queryParamObject value for key \"'' @ key @ js ''\" must be a string'')]"
    by (simp add: js_def)
  have l_accepts: "acceptsBaseUrl_loose URL b \<and> generateUrl_loose (String b) (Object ps) = Inr url \<longrightarrow>
      asyncScriptLoader_loose URL (String b) (Object ps) w =
        (Inr (fst (injectScript url w)), snd (injectScript url w))"
    by (simp add: loader_loose_accepts)
  from strict different l_not_string l_blank l_null l_array l_bad_value l_different l_accepts
  show ?thesis
    by (intro conjI)
qed

theorem validation_rejection_set_witness:
  "window example_page = Some (js ''https://example.com'') \<and>
   asyncScriptLoader example_URL (String javascript_url) (Object []) example_page =
     alreadyRejected (Error (js ''baseUrl must use http: or https: protocol'')) example_page \<and>
   elements (snd (asyncScriptLoader example_URL (String javascript_url) (Object []) example_page)) =
     elements example_page \<and>
   asyncScriptLoader example_URL (Number 3) (Object []) example_page =
     alreadyRejected (TypeError (js ''baseUrl must be a string'')) example_page \<and>
   asyncScriptLoader example_URL (String (js ''  '')) (Object []) example_page =
     alreadyRejected (Error (js ''baseUrl cannot be empty'')) example_page \<and>
   asyncScriptLoader example_URL (String widget_url) Null example_page =
     alreadyRejected (TypeError (js ''queryParamsObject must be an object'')) example_page \<and>
   asyncScriptLoader example_URL (String widget_url) (Array []) example_page =
     alreadyRejected (TypeError (js ''queryParamsObject must be a plain object'')) example_page \<and>
   asyncScriptLoader example_URL (String widget_url) (Object [(js ''v'', Number 2)]) example_page =
     alreadyRejected (TypeError (js ''queryParamsObject value for key \"v\" must be a string''))
       example_page \<and>
   asyncScriptLoader example_URL (String widget_url) blank_key_params example_page =
     alreadyRejected (Error (js ''queryParamsObject keys cannot be empty'')) example_page \<and>
   asyncScriptLoader_loose example_URL (Number 3) (Object []) example_page =
     alreadyRejected (TypeError (js ''baseUrl must be a string'')) example_page \<and>
   asyncScriptLoader_loose example_URL (String widget_url) Null example_page =
     alreadyRejected (TypeError (js ''queryParamObject must be an object'')) example_page \<and>
   asyncScriptLoader_loose example_URL (String widget_url) (Object [(js ''v'', Number 2)])
       example_page =
     alreadyRejected (TypeError (js ''queryParamObject value for key \"v\" must be a string''))
       example_page \<and>
   asyncScriptLoader_loose example_URL (String javascript_url) (Object []) example_page =
     (Inr (fst (injectScript javascript_url example_page)),
      snd (injectScript javascript_url example_page))"
proof -
  note c1 = conjunct1 and c2 = conjunct2
  have win: "window example_page = Some (js ''https://example.com'')"
    by (simp add: example_page_def)
  have acc: "acceptsBaseUrl example_URL example_page widget_url"
    by (simp add: acceptsBaseUrl_def builder_defs example_defs)
  have lacc: "acceptsBaseUrl_loose example_URL widget_url"
    "acceptsBaseUrl_loose example_URL javascript_url"
    by (simp_all add: acceptsBaseUrl_loose_def javascript_url_def startsWith_def builder_defs
        example_defs)
  have js_url: "example_URL javascript_url (Some (js ''https://example.com'')) =
      Some (js ''javascript:'')"
    by (simp add: javascript_url_def builder_defs example_defs)
  have js_gen: "generateUrl_loose (String javascript_url) (Object []) = Inr javascript_url"
    by (simp add: javascript_url_def builder_defs)
  have a: "asyncScriptLoader example_URL (String javascript_url) (Object []) example_page =
     alreadyRejected (Error (js ''baseUrl must use http: or https: protocol'')) example_page"
    using validation_rejection_set [where URL = example_URL and w = example_page
        and origin = "js ''https://example.com''",
        THEN c1, THEN mp, OF win, THEN c2, THEN c2, THEN c2, THEN c2, THEN c1] js_url
    by simp
  have b: "asyncScriptLoader example_URL (Number 3) (Object []) example_page =
     alreadyRejected (TypeError (js ''baseUrl must be a string'')) example_page"
    using validation_rejection_set [where URL = example_URL and w = example_page
        and origin = "js ''https://example.com''" and baseUrl = "Number 3" and params = "Object []",
        THEN c1, THEN mp, OF win, THEN c2, THEN c1]
    by simp
  have b': "asyncScriptLoader_loose example_URL (Number 3) (Object []) example_page =
     alreadyRejected (TypeError (js ''baseUrl must be a string'')) example_page"
    using validation_rejection_set [where URL = example_URL and w = example_page
        and origin = "js ''https://example.com''" and baseUrl = "Number 3" and params = "Object []",
        THEN c2, THEN c2, THEN c1]
    by simp
  have c: "asyncScriptLoader example_URL (String (js ''  '')) (Object []) example_page =
     alreadyRejected (Error (js ''baseUrl cannot be empty'')) example_page"
    using validation_rejection_set [where URL = example_URL and w = example_page
        and origin = "js ''https://example.com''" and b = "js ''  ''" and params = "Object []",
        THEN c1, THEN mp, OF win, THEN c2, THEN c2, THEN c1]
    by (simp add: js_def trim_def isWhiteSpace_def)
  have d: "asyncScriptLoader example_URL (String widget_url) Null example_page =
     alreadyRejected (TypeError (js ''queryParamsObject must be an object'')) example_page"
    using validation_rejection_set [where URL = example_URL and w = example_page
        and origin = "js ''https://example.com''" and b = widget_url,
        THEN c1, THEN mp, OF win, THEN c2, THEN c2, THEN c2, THEN c2, THEN c2, THEN c1] acc
    by simp
  have d': "asyncScriptLoader_loose example_URL (String widget_url) Null example_page =
     alreadyRejected (TypeError (js ''queryParamObject must be an object'')) example_page"
    using validation_rejection_set [where URL = example_URL and w = example_page
        and origin = "js ''https://example.com''" and b = widget_url,
        THEN c2, THEN c2, THEN c2, THEN c2, THEN c1] lacc(1)
    by simp
  have e: "asyncScriptLoader example_URL (String widget_url) (Array []) example_page =
     alreadyRejected (TypeError (js ''queryParamsObject must be a plain object'')) example_page"
    using validation_rejection_set [where URL = example_URL and w = example_page
        and origin = "js ''https://example.com''" and b = widget_url and xs = "[]",
        THEN c1, THEN mp, OF win, THEN c2, THEN c2, THEN c2, THEN c2, THEN c2, THEN c2, THEN c1] acc
    by simp
  have f: "asyncScriptLoader example_URL (String widget_url) (Object [(js ''v'', Number 2)])
       example_page =
     alreadyRejected (TypeError (js ''queryParamsObject value for key \"v\" must be a string''))
       example_page"
    using validation_rejection_set [where URL = example_URL and w = example_page
        and origin = "js ''https://example.com''" and b = widget_url and ps = "[(js ''v'', Number 2)]" and pre = "[]"
        and key = "js ''v''" and post = "[]",
        THEN c1, THEN mp, OF win, THEN c2, THEN c2, THEN c2, THEN c2, THEN c2, THEN c2, THEN c2, THEN c1] acc
    by (simp add: acceptsKeys_def Object_keys_def get_prop_def js_def trim_def isWhiteSpace_def)
  have f': "asyncScriptLoader_loose example_URL (String widget_url) (Object [(js ''v'', Number 2)])
       example_page =
     alreadyRejected (TypeError (js ''queryParamObject value for key \"v\" must be a string''))
       example_page"
    using validation_rejection_set [where URL = example_URL and w = example_page
        and origin = "js ''https://example.com''" and b = widget_url and ps = "[(js ''v'', Number 2)]" and pre = "[]"
        and key = "js ''v''" and post = "[]",
        THEN c2, THEN c2, THEN c2, THEN c2, THEN c2, THEN c2, THEN c1] lacc(1)
    by (simp add: acceptsValues_def Object_keys_def get_prop_def js_def)
  have g: "asyncScriptLoader example_URL (String widget_url) blank_key_params example_page =
     alreadyRejected (Error (js ''queryParamsObject keys cannot be empty'')) example_page"
    using validation_rejection_set [where URL = example_URL and w = example_page
        and origin = "js ''https://example.com''" and b = widget_url and ps = "[(js '' '', String (js ''2''))]" and pre = "[]"
        and key = "js '' ''" and post = "[]",
        THEN c1, THEN mp, OF win, THEN c2, THEN c2, THEN c2, THEN c2, THEN c2, THEN c2, THEN c2, THEN c2] acc
    by (simp add: blank_key_params_def acceptsKeys_def Object_keys_def get_prop_def js_def
        trim_def isWhiteSpace_def)
  have h: "elements (snd (asyncScriptLoader example_URL (String javascript_url) (Object [])
      example_page)) = elements example_page"
    by (simp add: a alreadyRejected_def)
  have i: "asyncScriptLoader_loose example_URL (String javascript_url) (Object []) example_page =
     (Inr (fst (injectScript javascript_url example_page)),
      snd (injectScript javascript_url example_page))"
    using validation_rejection_set [where URL = example_URL and w = example_page
        and origin = "js ''https://example.com''" and b = javascript_url and ps = "[]" and url = javascript_url,
        THEN c2, THEN c2, THEN c2, THEN c2, THEN c2, THEN c2, THEN c2, THEN c2] lacc(2) js_gen
    by simp
  from win a h b c d e f g b' d' f' i show ?thesis
    by (intro conjI)
qed

text \<open>
  C1 as stated fails for the loader of the second file: for \<open>javascript:alert(1)\<close> it
  returns a pending promise, having created a script element with that source and
  inserted it under \<open>head\<close>; and it accepts a blank key.
\<close>

theorem validation_rejection_set_counterexample:
  "asyncScriptLoader_loose example_URL (String javascript_url) (Object []) example_page =
     (Inr 0,
      example_page
        \<lparr>elements :=
           [\<lparr>tagName = js ''script'', src = javascript_url, async = True,
             listeners = [(LoadEvent, OnLoad (raceClosure javascript_url example_page)),
                          (ErrorEvent, OnError (raceClosure javascript_url example_page))]\<rparr>],
         head := Some [0],
         timers := [\<lparr>handler = OnTimeout (raceClosure javascript_url example_page),
                     delay = 2000, pending = True\<rparr>],
         promises := [Pending]\<rparr>) \<and>
   fst (asyncScriptLoader_loose example_URL (String widget_url) blank_key_params example_page) =
     Inr 0 \<and>
   promises (snd (asyncScriptLoader_loose example_URL (String widget_url) blank_key_params
     example_page)) = [Pending] \<and>
   map src (elements (snd (asyncScriptLoader_loose example_URL (String widget_url)
     blank_key_params example_page))) = [js ''https://cdn.example.com/widget.js?%20=2'']"
proof -
  have h: "head example_page = Some []" and z: "elements example_page = []"
    "timers example_page = []" "promises example_page = []"
    by (simp_all add: example_page_def)
  have lacc: "acceptsBaseUrl_loose example_URL widget_url"
    "acceptsBaseUrl_loose example_URL javascript_url"
    by (simp_all add: acceptsBaseUrl_loose_def javascript_url_def startsWith_def builder_defs
        example_defs)
  have js_gen: "generateUrl_loose (String javascript_url) (Object []) = Inr javascript_url"
    by (simp add: javascript_url_def builder_defs)
  have key_gen: "generateUrl_loose (String widget_url) (Object [(js '' '', String (js ''2''))]) =
      Inr (js ''https://cdn.example.com/widget.js?%20=2'')"
    by (simp add: builder_defs example_defs)
  show ?thesis
    unfolding blank_key_params_def
    by (simp add: loader_loose_accepts [OF lacc(2) js_gen] loader_loose_accepts [OF lacc(1) key_gen]
        injectScript_head [OF h] z scriptNode_def)
qed

text \<open>
  C4, as amended. Without a window the call returns a promise already rejected with the
  environment error, and on a validation failure one already rejected with the error of
  the validation; in both cases nothing else in the world changes. Without a \<open>head\<close>
  element the call returns a promise already rejected with the \<open>head\<close> error after it
  has created a script element for the constructed URL: the element has no parent and
  no listener, no timer is set, and the children of the document are as before.
\<close>

theorem fast_failures:
  "(window w = None \<longrightarrow>
      asyncScriptLoader URL baseUrl params w =
        alreadyRejected (Error (js ''asyncScriptLoader requires a browser environment'')) w) \<and>
   (window w \<noteq> None \<and> validateInputs URL w baseUrl params = Invalid e \<longrightarrow>
      asyncScriptLoader URL baseUrl params w = alreadyRejected e w) \<and>
   (window w \<noteq> None \<and> generateUrl URL w baseUrl params = Inr url \<and> head w = None \<longrightarrow>
      asyncScriptLoader URL baseUrl params w =
        (Inr (length (promises w)),
         w\<lparr>elements := elements w @ [scriptNode url],
           promises := promises w @
             [Rejected (Error (js ''No <head> element found in document''))]\<rparr>))"
  by (auto simp: loader_no_window loader_invalid loader_valid injectScript_no_head)

theorem fast_failures_witness:
  "window no_window = None \<and>
   asyncScriptLoader example_URL (String widget_url) (Object []) no_window =
     alreadyRejected (Error (js ''asyncScriptLoader requires a browser environment'')) no_window \<and>
   window example_page \<noteq> None \<and>
   validateInputs example_URL example_page (String []) (Object []) =
     Invalid (Error (js ''baseUrl cannot be empty'')) \<and>
   asyncScriptLoader example_URL (String []) (Object []) example_page =
     alreadyRejected (Error (js ''baseUrl cannot be empty'')) example_page \<and>
   window no_head_page \<noteq> None \<and>
   generateUrl example_URL no_head_page (String widget_url) (Object []) = Inr widget_url \<and>
   head no_head_page = None \<and>
   asyncScriptLoader example_URL (String widget_url) (Object []) no_head_page =
     (Inr (length (promises no_head_page)),
      no_head_page\<lparr>elements := elements no_head_page @ [scriptNode widget_url],
        promises := promises no_head_page @
          [Rejected (Error (js ''No <head> element found in document''))]\<rparr>)"
proof -
  have a: "window no_window = None"
    by (simp add: example_defs)
  have b: "window example_page \<noteq> None"
    by (simp add: example_defs)
  have c: "validateInputs example_URL example_page (String []) (Object []) =
      Invalid (Error (js ''baseUrl cannot be empty''))"
    by (simp add: validateInputs_def trim_def)
  have d: "window no_head_page \<noteq> None" "head no_head_page = None"
    by (simp_all add: no_head_page_def example_defs)
  have e: "generateUrl example_URL no_head_page (String widget_url) (Object []) = Inr widget_url"
    by (simp add: no_head_page_def builder_defs example_defs)
  from a fast_failures [of no_window example_URL "String widget_url" "Object []"]
  have f: "asyncScriptLoader example_URL (String widget_url) (Object []) no_window =
     alreadyRejected (Error (js ''asyncScriptLoader requires a browser environment'')) no_window"
    by simp
  from b c fast_failures [of example_page example_URL "String []" "Object []"
      "Error (js ''baseUrl cannot be empty'')"]
  have g: "asyncScriptLoader example_URL (String []) (Object []) example_page =
     alreadyRejected (Error (js ''baseUrl cannot be empty'')) example_page"
    by simp
  from d e fast_failures [of no_head_page example_URL "String widget_url" "Object []" _ widget_url]
  have h: "asyncScriptLoader example_URL (String widget_url) (Object []) no_head_page =
     (Inr (length (promises no_head_page)),
      no_head_page\<lparr>elements := elements no_head_page @ [scriptNode widget_url],
        promises := promises no_head_page @
          [Rejected (Error (js ''No <head> element found in document''))]\<rparr>)"
    by simp
  from a b c d e f g h show ?thesis by blast
qed

text \<open>
  C4 as stated fails on the path without a \<open>head\<close> element: the call has created a
  script element by the time it looks for \<open>head\<close>.
\<close>

theorem fast_failures_counterexample:
  "fst (asyncScriptLoader example_URL (String widget_url) (Object []) no_head_page) = Inr 0 \<and>
   promises (snd (asyncScriptLoader example_URL (String widget_url) (Object []) no_head_page)) ! 0 =
     Rejected (Error (js ''No <head> element found in document'')) \<and>
   elements no_head_page = [] \<and>
   elements (snd (asyncScriptLoader example_URL (String widget_url) (Object []) no_head_page)) =
     [\<lparr>tagName = js ''script'', src = widget_url, async = True, listeners = []\<rparr>]"
proof -
  have "generateUrl example_URL no_head_page (String widget_url) (Object []) = Inr widget_url"
    by (simp add: no_head_page_def builder_defs example_defs)
  moreover have "window no_head_page = Some (js ''https://example.com'')" "head no_head_page = None"
    "elements no_head_page = []" "promises no_head_page = []"
    by (simp_all add: no_head_page_def example_defs)
  ultimately show ?thesis
    by (simp add: loader_valid injectScript_no_head scriptNode_def)
qed


section \<open>The loader: the race\<close>























section \<open>Percent-encoding and decoding\<close>

lemma unat_code_unit: "n < 65536 \<Longrightarrow> unat (of_nat n :: code_unit) = n"
  by (simp add: unat_of_nat)

lemma unat_hexDigit:
  "d < 16 \<Longrightarrow> unat (hexDigit d) = (if d < 10 then 0x30 + d else 0x41 + (d - 10))"
  unfolding hexDigit_def by (simp add: unat_of_nat del: of_nat_add of_nat_diff)

lemma hexValue_hexDigit: "d < 16 \<Longrightarrow> hexValue (hexDigit d) = Some d"
  by (simp add: hexValue_def unat_hexDigit Let_def)

lemma parseHexOctet_hexDigits:
  assumes "b < 256"
  shows "parseHexOctet (hexDigit (b div 16)) (hexDigit (b mod 16)) = Some b"
proof -
  from assms have "b div 16 < 16" by simp
  then show ?thesis
    by (simp add: parseHexOctet_def hexValue_hexDigit)
qed

lemma hexDigit_not_percent: "d < 16 \<Longrightarrow> hexDigit d \<noteq> percentSign"
  using hexValue_hexDigit [of d]
  by (auto simp: hexValue_def percentSign_def)

lemma readOctet_escapeOctet:
  "b < 256 \<Longrightarrow> readOctet (escapeOctet b @ rest) = Some (b, rest)"
  by (simp add: escapeOctet_def parseHexOctet_hexDigits)

lemma readOctets_escaped:
  "\<forall>b\<in>set bs. b < 256 \<Longrightarrow>
   readOctets (length bs) (concat (map escapeOctet bs) @ rest) = Some (bs, rest)"
  by (induction bs) (simp_all add: readOctet_escapeOctet)


lemma utf8_1: "cp < 0x80 \<Longrightarrow> utf8 cp = [cp]"
  by (simp add: utf8_def)

lemma utf8Decode_2:
  assumes "0x80 \<le> cp" "cp < 0x800"
  shows "utf8Decode (utf8 cp) = Some cp \<and> length (utf8 cp) = 2 \<and>
         leadingOnes (hd (utf8 cp)) = 2 \<and> (\<forall>b\<in>set (utf8 cp). b < 256)"
proof -
  have "cp div 0x40 * 0x40 + cp mod 0x40 = cp" by simp
  moreover have "cp div 0x40 < 0x20" "0x2 \<le> cp div 0x40" using assms by simp_all
  moreover have "cp mod 0x40 < 0x40" by simp
  ultimately show ?thesis using assms
    by (simp add: utf8_def isContinuation_def leadingOnes_def Let_def)
qed


lemma split_64: "(n::nat) div 0x40 * 0x40 + n mod 0x40 = n"
  by simp

lemma split_4096:
  "(n::nat) div 0x1000 * 0x1000 + (n div 0x40) mod 0x40 * 0x40 + n mod 0x40 = n"
proof -
  define a where "a = n div 0x40"
  have hi: "n div 0x1000 = a div 0x40"
    unfolding a_def by (simp add: div_mult2_eq [symmetric])
  have "a div 0x40 * 0x1000 = a div 0x40 * 0x40 * 0x40"
    by simp
  then have "a div 0x40 * 0x1000 + a mod 0x40 * 0x40 = (a div 0x40 * 0x40 + a mod 0x40) * 0x40"
    by (simp only: add_mult_distrib)
  also have "\<dots> = a * 0x40"
    by (simp only: split_64)
  finally have "a div 0x40 * 0x1000 + a mod 0x40 * 0x40 + n mod 0x40 = a * 0x40 + n mod 0x40"
    by simp
  also have "\<dots> = n"
    unfolding a_def by simp
  finally show ?thesis
    unfolding hi a_def .
qed


lemma split_262144:
  "(n::nat) div 0x40000 * 0x40000 + (n div 0x1000) mod 0x40 * 0x1000 +
   (n div 0x40) mod 0x40 * 0x40 + n mod 0x40 = n"
proof -
  define a where "a = n div 0x40"
  have d1: "n div 0x40000 = a div 0x1000" and d2: "n div 0x1000 = a div 0x40"
    unfolding a_def by (simp_all add: div_mult2_eq [symmetric])
  have "a div 0x1000 * 0x40000 = a div 0x1000 * 0x1000 * 0x40"
    "(a div 0x40) mod 0x40 * 0x1000 = (a div 0x40) mod 0x40 * 0x40 * 0x40"
    by simp_all
  then have "a div 0x1000 * 0x40000 + (a div 0x40) mod 0x40 * 0x1000 + a mod 0x40 * 0x40 =
      (a div 0x1000 * 0x1000 + (a div 0x40) mod 0x40 * 0x40 + a mod 0x40) * 0x40"
    by (simp only: add_mult_distrib)
  also have "\<dots> = a * 0x40"
    by (simp only: split_4096)
  finally have "a div 0x1000 * 0x40000 + (a div 0x40) mod 0x40 * 0x1000 + a mod 0x40 * 0x40 +
      n mod 0x40 = a * 0x40 + n mod 0x40"
    by simp
  also have "\<dots> = n"
    unfolding a_def by simp
  finally show ?thesis
    unfolding d1 d2 a_def .
qed

lemma utf8Decode_3:
  assumes "0x800 \<le> cp" "cp < 0x10000" "\<not> (0xD800 \<le> cp \<and> cp \<le> 0xDFFF)"
  shows "utf8Decode (utf8 cp) = Some cp \<and> length (utf8 cp) = 3 \<and>
         leadingOnes (hd (utf8 cp)) = 3 \<and> (\<forall>b\<in>set (utf8 cp). b < 256)"
proof -
  define x y z where "x = cp div 0x1000" and "y = (cp div 0x40) mod 0x40" and "z = cp mod 0x40"
  have cp: "x * 0x1000 + y * 0x40 + z = cp"
    unfolding x_def y_def z_def by (rule split_4096)
  have bounds: "x < 0x10" "y < 0x40" "z < 0x40"
    using assms(2) unfolding x_def y_def z_def by simp_all
  have enc: "utf8 cp = [0xE0 + x, 0x80 + y, 0x80 + z]"
    using assms(1,2) unfolding x_def y_def z_def by (simp add: utf8_def)
  have "utf8Decode [0xE0 + x, 0x80 + y, 0x80 + z] = Some cp"
    using bounds assms by (simp add: isContinuation_def cp)
  with bounds show ?thesis
    by (simp add: enc leadingOnes_def)
qed

lemma utf8Decode_4:
  assumes "0x10000 \<le> cp" "cp < 0x110000"
  shows "utf8Decode (utf8 cp) = Some cp \<and> length (utf8 cp) = 4 \<and>
         leadingOnes (hd (utf8 cp)) = 4 \<and> (\<forall>b\<in>set (utf8 cp). b < 256)"
proof -
  define v x y z where "v = cp div 0x40000" and "x = (cp div 0x1000) mod 0x40"
    and "y = (cp div 0x40) mod 0x40" and "z = cp mod 0x40"
  have cp: "v * 0x40000 + x * 0x1000 + y * 0x40 + z = cp"
    unfolding v_def x_def y_def z_def by (rule split_262144)
  have bounds: "v < 0x8" "x < 0x40" "y < 0x40" "z < 0x40"
    using assms(2) unfolding v_def x_def y_def z_def by simp_all
  have enc: "utf8 cp = [0xF0 + v, 0x80 + x, 0x80 + y, 0x80 + z]"
    using assms(1) unfolding v_def x_def y_def z_def by (simp add: utf8_def)
  have "utf8Decode [0xF0 + v, 0x80 + x, 0x80 + y, 0x80 + z] = Some cp"
    using bounds assms by (simp add: isContinuation_def cp)
  with bounds show ?thesis
    by (simp add: enc leadingOnes_def)
qed


declare decodeURIComponent.simps [simp del]

lemma decode_Nil: "decodeURIComponent [] = Some []"
  by (simp add: decodeURIComponent.simps)

lemma decode_plain:
  "c \<noteq> percentSign \<Longrightarrow>
   decodeURIComponent (c # cs) = map_option ((#) c) (decodeURIComponent cs)"
  by (simp add: decodeURIComponent.simps)

lemma decode_percent:
  assumes "readOctet (percentSign # cs) = Some (b, rest)"
  shows "decodeURIComponent (percentSign # cs) =
     (if leadingOnes b = 0 then map_option ((#) (of_nat b)) (decodeURIComponent rest)
      else if leadingOnes b = 1 \<or> 4 < leadingOnes b then None
      else
        (case readOctets (leadingOnes b - 1) rest of
           None \<Rightarrow> None
         | Some (bs, rest') \<Rightarrow>
             (case utf8Decode (b # bs) of
                None \<Rightarrow> None
              | Some cp \<Rightarrow> map_option ((@) (utf16Encode cp)) (decodeURIComponent rest'))))"
  using assms by (simp add: decodeURIComponent.simps del: readOctet.simps)

lemma escapeOctet_Cons:
  "escapeOctet b @ rest = percentSign # hexDigit (b div 16) # hexDigit (b mod 16) # rest"
  by (simp add: escapeOctet_def)

lemma decode_escaped_ascii:
  assumes "cp < 0x80"
  shows "decodeURIComponent (escapeCodePoint cp @ rest) =
           map_option ((@) (utf16Encode cp)) (decodeURIComponent rest)"
proof -
  from assms have "cp < 256" by simp
  then have r: "readOctet (percentSign # hexDigit (cp div 16) # hexDigit (cp mod 16) # rest) =
      Some (cp, rest)"
    using readOctet_escapeOctet [of cp rest] by (simp only: escapeOctet_Cons)
  have e: "escapeCodePoint cp @ rest =
      percentSign # hexDigit (cp div 16) # hexDigit (cp mod 16) # rest"
    using assms by (simp add: escapeCodePoint_def utf8_1 escapeOctet_def)
  have u: "utf16Encode cp = [of_nat cp]"
    using assms by (simp add: utf16Encode_def)
  have "map_option ((@) [of_nat cp :: code_unit]) (decodeURIComponent rest) =
      map_option ((#) (of_nat cp)) (decodeURIComponent rest)"
    by (cases "decodeURIComponent rest") simp_all
  with assms show ?thesis
    unfolding e u decode_percent [OF r] by (simp add: leadingOnes_def)
qed

lemma decode_escaped_sequence:
  assumes dec: "utf8Decode bs = Some cp" and len: "2 \<le> length bs" "length bs \<le> 4"
    and lead: "leadingOnes (hd bs) = length bs" and oct: "\<forall>b\<in>set bs. b < 256"
  shows "decodeURIComponent (concat (map escapeOctet bs) @ rest) =
           map_option ((@) (utf16Encode cp)) (decodeURIComponent rest)"
proof -
  from len obtain b0 tl where bs: "bs = b0 # tl"
    by (cases bs) auto
  with len have tl: "tl \<noteq> []"
    by auto
  let ?X = "concat (map escapeOctet tl) @ rest"
  from oct bs have "b0 < 256" by simp
  then have r: "readOctet (percentSign # hexDigit (b0 div 16) # hexDigit (b0 mod 16) # ?X) =
      Some (b0, ?X)"
    using readOctet_escapeOctet [of b0 ?X] by (simp only: escapeOctet_Cons)
  have e: "concat (map escapeOctet bs) @ rest =
      percentSign # hexDigit (b0 div 16) # hexDigit (b0 mod 16) # ?X"
    by (simp add: bs escapeOctet_def)
  from lead bs have l: "leadingOnes b0 = Suc (length tl)" by simp
  from oct bs have "readOctets (length tl) ?X = Some (tl, rest)"
    by (intro readOctets_escaped) simp
  with l len tl dec show ?thesis
    unfolding e decode_percent [OF r] by (simp add: bs)
qed

lemma decode_escaped:
  assumes "isScalarValue cp"
  shows "decodeURIComponent (escapeCodePoint cp @ rest) =
           map_option ((@) (utf16Encode cp)) (decodeURIComponent rest)"
proof -
  consider "cp < 0x80" | "0x80 \<le> cp" "cp < 0x800"
    | "0x800 \<le> cp" "cp < 0x10000" "\<not> (0xD800 \<le> cp \<and> cp \<le> 0xDFFF)"
    | "0x10000 \<le> cp" "cp < 0x110000"
    using assms unfolding isScalarValue_def by linarith
  then show ?thesis
  proof cases
    case 1
    then show ?thesis by (rule decode_escaped_ascii)
  next
    case 2
    from utf8Decode_2 [OF 2] show ?thesis
      unfolding escapeCodePoint_def by (intro decode_escaped_sequence) simp_all
  next
    case 3
    from utf8Decode_3 [OF 3] show ?thesis
      unfolding escapeCodePoint_def by (intro decode_escaped_sequence) simp_all
  next
    case 4
    from utf8Decode_4 [OF 4] show ?thesis
      unfolding escapeCodePoint_def by (intro decode_escaped_sequence) simp_all
  qed
qed


lemma unat_code_unit_less: "unat (c :: code_unit) < 0x10000"
  using unsigned_less [of c, where 'a = nat] by simp

lemma utf16Encode_unit: "utf16Encode (unat (c :: code_unit)) = [c]"
  using unat_code_unit_less [of c] by (simp add: utf16Encode_def)

lemma scalar_unit:
  "\<not> isLeadSurrogate c \<Longrightarrow> \<not> isTrailSurrogate c \<Longrightarrow> isScalarValue (unat c)"
  using unat_code_unit_less [of c]
  by (auto simp: isScalarValue_def isLeadSurrogate_def isTrailSurrogate_def)

lemma surrogate_pair:
  assumes "isLeadSurrogate c" and "isTrailSurrogate d"
  shows "isScalarValue (surrogatePairToCodePoint c d)"
    and "utf16Encode (surrogatePairToCodePoint c d) = [c, d]"
proof -
  define x y where "x = unat c - 0xD800" and "y = unat d - 0xDC00"
  from assms have c: "unat c = 0xD800 + x" and d: "unat d = 0xDC00 + y"
    unfolding x_def y_def isLeadSurrogate_def isTrailSurrogate_def by simp_all
  from assms have x: "x < 0x400" and y: "y < 0x400"
    unfolding x_def y_def isLeadSurrogate_def isTrailSurrogate_def by linarith+
  have cp: "surrogatePairToCodePoint c d = 0x10000 + (x * 0x400 + y)"
    unfolding surrogatePairToCodePoint_def x_def y_def by simp
  from x have "x * 0x400 + y < 0x100000"
    using y by simp
  then show "isScalarValue (surrogatePairToCodePoint c d)"
    unfolding cp isScalarValue_def by simp
  have "(x * 0x400 + y) div 0x400 = x" "(x * 0x400 + y) mod 0x400 = y"
    using y by simp_all
  moreover have "of_nat (0xD800 + x) = c" "of_nat (0xDC00 + y) = d"
    unfolding c [symmetric] d [symmetric] by simp_all
  ultimately show "utf16Encode (surrogatePairToCodePoint c d) = [c, d]"
    unfolding cp utf16Encode_def by (simp del: of_nat_add)
qed

lemma prepend_Inr: "prepend xs r = Inr e \<longleftrightarrow> (\<exists>ys. r = Inr ys \<and> e = xs @ ys)"
  by (cases r) (auto simp: prepend_def)

lemma unescaped_not_percent: "uriUnescaped c \<Longrightarrow> c \<noteq> percentSign"
  by (auto simp: uriUnescaped_def percentSign_def)

lemma unescaped_not_surrogate:
  "uriUnescaped c \<Longrightarrow> \<not> isLeadSurrogate c \<and> \<not> isTrailSurrogate c"
  by (auto simp: uriUnescaped_def isLeadSurrogate_def isTrailSurrogate_def Let_def)

lemma encode_decode:
  "encodeURIComponent s = Inr e \<Longrightarrow> decodeURIComponent e = Some s"
proof (induction s arbitrary: e rule: encodeURIComponent.induct)
  case 1
  then show ?case by (simp add: decode_Nil)
next
  case (2 c cs)
  show ?case
  proof (cases "uriUnescaped c")
    case True
    with "2.prems" obtain e' where e': "encodeURIComponent cs = Inr e'" and e: "e = c # e'"
      by (auto simp: prepend_Inr)
    from "2.IH"(1) [OF True e'] show ?thesis
      by (simp add: e decode_plain [OF unescaped_not_percent [OF True]])
  next
    case False
    show ?thesis
    proof (cases "\<not> isLeadSurrogate c \<and> \<not> isTrailSurrogate c")
      case True
      with False "2.prems" obtain e' where e': "encodeURIComponent cs = Inr e'"
        and e: "e = escapeCodePoint (unat c) @ e'"
        by (auto simp: prepend_Inr)
      from True have "isScalarValue (unat c)"
        by (simp add: scalar_unit)
      with "2.IH"(2) [OF False True e'] show ?thesis
        by (simp add: e decode_escaped utf16Encode_unit)
    next
      case surrogate: False
      with False "2.prems" have nt: "\<not> isTrailSurrogate c"
        by (auto split: if_splits)
      with surrogate have lead: "isLeadSurrogate c"
        by simp
      from False surrogate nt "2.prems" obtain d ds e' where cs: "cs = d # ds"
        and d: "isTrailSurrogate d" and e': "encodeURIComponent ds = Inr e'"
        and e: "e = escapeCodePoint (surrogatePairToCodePoint c d) @ e'"
        by (auto simp: prepend_Inr split: list.splits if_splits)
      from "2.IH"(3) [OF False surrogate nt cs d e'] surrogate_pair [OF lead d] show ?thesis
        by (simp add: e cs decode_escaped)
    qed
  qed
qed


subsection \<open>The characters of an encoded string\<close>

lemma hexDigit_unescaped: "d < 16 \<Longrightarrow> uriUnescaped (hexDigit d)"
  by (auto simp: uriUnescaped_def unat_hexDigit Let_def)

lemma escapeOctet_chars: "b < 256 \<Longrightarrow> \<forall>c\<in>set (escapeOctet b). isEncodedChar c"
proof -
  assume "b < 256"
  then have "b div 16 < 16" by simp
  then show ?thesis
    by (simp add: escapeOctet_def isEncodedChar_def hexDigit_unescaped)
qed

lemma utf8_octets:
  assumes "isScalarValue cp"
  shows "\<forall>b\<in>set (utf8 cp). b < 256"
proof -
  consider "cp < 0x80" | "0x80 \<le> cp" "cp < 0x800"
    | "0x800 \<le> cp" "cp < 0x10000" "\<not> (0xD800 \<le> cp \<and> cp \<le> 0xDFFF)"
    | "0x10000 \<le> cp" "cp < 0x110000"
    using assms unfolding isScalarValue_def by linarith
  then show ?thesis
  proof cases
    case 1
    then show ?thesis by (simp add: utf8_1)
  next
    case 2
    from utf8Decode_2 [OF 2] show ?thesis by blast
  next
    case 3
    from utf8Decode_3 [OF 3] show ?thesis by blast
  next
    case 4
    from utf8Decode_4 [OF 4] show ?thesis by blast
  qed
qed

lemma escapeCodePoint_chars:
  "isScalarValue cp \<Longrightarrow> \<forall>c\<in>set (escapeCodePoint cp). isEncodedChar c"
  using utf8_octets [of cp] escapeOctet_chars
  by (auto simp: escapeCodePoint_def)

lemma encode_chars:
  "encodeURIComponent s = Inr e \<Longrightarrow> \<forall>c\<in>set e. isEncodedChar c"
proof (induction s arbitrary: e rule: encodeURIComponent.induct)
  case 1
  then show ?case by simp
next
  case (2 c cs)
  show ?case
  proof (cases "uriUnescaped c")
    case True
    with "2.prems" obtain e' where e': "encodeURIComponent cs = Inr e'" and e: "e = c # e'"
      by (auto simp: prepend_Inr)
    from "2.IH"(1) [OF True e'] True show ?thesis
      by (simp add: e isEncodedChar_def)
  next
    case False
    show ?thesis
    proof (cases "\<not> isLeadSurrogate c \<and> \<not> isTrailSurrogate c")
      case True
      with False "2.prems" obtain e' where e': "encodeURIComponent cs = Inr e'"
        and e: "e = escapeCodePoint (unat c) @ e'"
        by (auto simp: prepend_Inr)
      from True have "isScalarValue (unat c)"
        by (simp add: scalar_unit)
      with "2.IH"(2) [OF False True e'] show ?thesis
        using escapeCodePoint_chars [of "unat c"] by (auto simp: e)
    next
      case surrogate: False
      with False "2.prems" have nt: "\<not> isTrailSurrogate c"
        by (auto split: if_splits)
      with surrogate have lead: "isLeadSurrogate c"
        by simp
      from False surrogate nt "2.prems" obtain d ds e' where cs: "cs = d # ds"
        and d: "isTrailSurrogate d" and e': "encodeURIComponent ds = Inr e'"
        and e: "e = escapeCodePoint (surrogatePairToCodePoint c d) @ e'"
        by (auto simp: prepend_Inr split: list.splits if_splits)
      from "2.IH"(3) [OF False surrogate nt cs d e'] surrogate_pair(1) [OF lead d] show ?thesis
        using escapeCodePoint_chars [of "surrogatePairToCodePoint c d"] by (auto simp: e)
    qed
  qed
qed

lemma separators_not_encoded:
  "\<not> isEncodedChar ampersand" "\<not> isEncodedChar equalsSign" "\<not> isEncodedChar plusSign"
  by (simp_all add: isEncodedChar_def uriUnescaped_def ampersand_def equalsSign_def
      plusSign_def percentSign_def)

lemma wellFormed_encodes:
  "wellFormedUTF16 s \<Longrightarrow> \<exists>e. encodeURIComponent s = Inr e"
proof (induction s rule: encodeURIComponent.induct)
  case 1
  then show ?case by simp
next
  case (2 c cs)
  show ?case
  proof (cases "uriUnescaped c")
    case True
    with "2.prems" have "wellFormedUTF16 cs"
      by (simp add: unescaped_not_surrogate)
    from "2.IH"(1) [OF True this] True show ?thesis
      by (auto simp: prepend_def)
  next
    case False
    show ?thesis
    proof (cases "\<not> isLeadSurrogate c \<and> \<not> isTrailSurrogate c")
      case True
      with "2.prems" have "wellFormedUTF16 cs"
        by simp
      from "2.IH"(2) [OF False True this] False True show ?thesis
        by (auto simp: prepend_def)
    next
      case surrogate: False
      with "2.prems" have lead: "isLeadSurrogate c"
        by (auto split: if_splits)
      then have nt: "\<not> isTrailSurrogate c"
        by (auto simp: isLeadSurrogate_def isTrailSurrogate_def)
      from lead "2.prems" obtain d ds where cs: "cs = d # ds" and d: "isTrailSurrogate d"
        and wf: "wellFormedUTF16 ds"
        by (auto split: list.splits)
      from "2.IH"(3) [OF False surrogate nt cs d wf] False surrogate nt d show ?thesis
        by (auto simp: cs prepend_def)
    qed
  qed
qed

subsection \<open>Reading the query string back\<close>

lemma splitOn_append:
  "sep \<notin> set x \<Longrightarrow> splitOn sep (x @ sep # rest) = x # splitOn sep rest"
  by (induction x) auto

lemma splitOn_single: "sep \<notin> set x \<Longrightarrow> splitOn sep x = [x]"
  by (induction x) auto

lemma splitOn_joined:
  "\<forall>e\<in>set (e0 # es). ampersand \<notin> set e \<Longrightarrow>
   splitOn ampersand (e0 @ concat (map ((#) ampersand) es)) = e0 # es"
proof (induction es arbitrary: e0)
  case Nil
  then show ?case by (simp add: splitOn_single)
next
  case (Cons e es)
  then show ?case by (simp add: splitOn_append)
qed

lemma encoded_pair_chars:
  assumes "isEncodedPair params key e"
  shows "ampersand \<notin> set e" and "plusSign \<notin> set e"
proof -
  from assms obtain ek ev where ek: "encodeURIComponent key = Inr ek"
    and ev: "encodeURIComponent (ToString (get_prop params key)) = Inr ev"
    and e: "e = ek @ [equalsSign] @ ev"
    by (auto simp: isEncodedPair_def encodePair_def split: sum.splits)
  from encode_chars [OF ek] encode_chars [OF ev] separators_not_encoded
  show "ampersand \<notin> set e" and "plusSign \<notin> set e"
    unfolding e by (auto simp: ampersand_def equalsSign_def plusSign_def)
qed

lemma encoded_pairs_chars:
  "list_all2 (isEncodedPair params) keys es \<Longrightarrow>
   \<forall>e\<in>set es. ampersand \<notin> set e \<and> plusSign \<notin> set e"
  by (induction rule: list_all2_induct) (auto dest: encoded_pair_chars)

lemma decodePair_encoded:
  assumes "isEncodedPair params key e"
  shows "decodePair e = Some (key, ToString (get_prop params key))"
proof -
  from assms obtain ek ev where ek: "encodeURIComponent key = Inr ek"
    and ev: "encodeURIComponent (ToString (get_prop params key)) = Inr ev"
    and e: "e = ek @ equalsSign # ev"
    by (auto simp: isEncodedPair_def encodePair_def split: sum.splits)
  from encode_chars [OF ek] separators_not_encoded(2) have "\<forall>c\<in>set ek. c \<noteq> equalsSign"
    by auto
  then have "takeWhile (\<lambda>c. c \<noteq> equalsSign) e = ek"
    and "drop 1 (dropWhile (\<lambda>c. c \<noteq> equalsSign) e) = ev"
    unfolding e by (simp_all add: takeWhile_append2 dropWhile_append2)
  then show ?thesis
    by (simp add: decodePair_def encode_decode [OF ek] encode_decode [OF ev])
qed

lemma those_decodePair:
  "list_all2 (isEncodedPair params) keys es \<Longrightarrow>
   those (map decodePair es) = Some (map (\<lambda>key. (key, ToString (get_prop params key))) keys)"
  by (induction rule: list_all2_induct) (simp_all add: decodePair_encoded)

lemma decodeQuery_joinPairs:
  assumes "list_all2 (isEncodedPair params) keys es"
  shows "decodeQuery (joinPairs sep es) =
           Some (map (\<lambda>key. (key, ToString (get_prop params key))) keys)"
proof (cases es)
  case Nil
  with assms show ?thesis by (simp add: decodeQuery_def joinPairs_def)
next
  case (Cons e es')
  from encoded_pairs_chars [OF assms] have "\<forall>e\<in>set es. ampersand \<notin> set e"
    by blast
  then have "splitOn ampersand (e @ concat (map ((#) ampersand) es')) = es"
    unfolding Cons by (rule splitOn_joined)
  with those_decodePair [OF assms] show ?thesis
    by (simp add: decodeQuery_def joinPairs_def Cons)
qed

lemma joinPairs_no_plus:
  assumes "list_all2 (isEncodedPair params) keys es" and "sep \<noteq> plusSign"
  shows "plusSign \<notin> set (joinPairs sep es)"
proof -
  from encoded_pairs_chars [OF assms(1)] have "\<forall>e\<in>set es. plusSign \<notin> set e"
    by blast
  with assms(2) show ?thesis
    by (cases es) (auto simp: joinPairs_def ampersand_def plusSign_def)
qed

lemma reduceKeys_total:
  "\<forall>key\<in>set keys. wellFormedUTF16 key \<and> wellFormedUTF16 (ToString (get_prop params key)) \<Longrightarrow>
   \<exists>q. reduceKeys params fs keys index acc = Inr q"
proof (induction keys arbitrary: index acc)
  case Nil
  then show ?case by simp
next
  case (Cons key keys)
  from Cons.prems obtain ek ev where "encodeURIComponent key = Inr ek"
    "encodeURIComponent (ToString (get_prop params key)) = Inr ev"
    using wellFormed_encodes [of key] wellFormed_encodes [of "ToString (get_prop params key)"]
    by auto
  moreover from Cons.prems have
    "\<forall>key\<in>set keys. wellFormedUTF16 key \<and> wellFormedUTF16 (ToString (get_prop params key))"
    by simp
  ultimately show ?case
    using Cons.IH by simp
qed

lemma buildQuery_total:
  assumes "wellFormedParams params"
  shows "\<exists>url. buildQuery b params = Inr url"
proof -
  from assms have "\<forall>key\<in>set (Object_keys params).
      wellFormedUTF16 key \<and> wellFormedUTF16 (ToString (get_prop params key))"
    by (simp add: wellFormedParams_def list_all_iff)
  from reduceKeys_total [OF this, of "if str_includes b questionMark then ampersand else questionMark" 0 "[]"]
  show ?thesis
    by (auto simp: buildQuery_def Let_def)
qed

lemma buildQuery_round_trip:
  assumes "buildQuery b params = Inr url"
  shows "take (length b) url = b \<and> decodeQuery (drop (length b) url) = Some (entries params) \<and>
         plusSign \<notin> set (drop (length b) url)"
proof (cases "params = []")
  case True
  with assms show ?thesis
    by (simp add: buildQuery_def Object_keys_def entries_def decodeQuery_def)
next
  case False
  from buildQuery_shape [OF assms False] obtain es where
    es: "list_all2 (isEncodedPair params) (Object_keys params) es" and
    url: "url = b @ joinPairs (if questionMark \<in> set b then ampersand else questionMark) es"
    by blast
  have "(if questionMark \<in> set b then ampersand else questionMark) \<noteq> plusSign"
    by (simp add: questionMark_def ampersand_def plusSign_def)
  from decodeQuery_joinPairs [OF es] joinPairs_no_plus [OF es this] show ?thesis
    by (simp add: url entries_def)
qed

lemma prepend_Inl: "prepend xs r = Inl e \<longleftrightarrow> r = Inl e"
  by (cases r) (auto simp: prepend_def)

lemma encode_error: "encodeURIComponent s = Inl e \<Longrightarrow> e = uriMalformed"
proof (induction s rule: encodeURIComponent.induct)
  case 1
  then show ?case by simp
next
  case (2 c cs)
  then show ?case
    by (auto simp: prepend_Inl split: if_splits list.splits)
qed

lemma encodes_wellFormed: "encodeURIComponent s = Inr e \<Longrightarrow> wellFormedUTF16 s"
proof (induction s arbitrary: e rule: encodeURIComponent.induct)
  case 1
  then show ?case by simp
next
  case (2 c cs)
  show ?case
  proof (cases "uriUnescaped c")
    case True
    with "2.prems" obtain e' where "encodeURIComponent cs = Inr e'"
      by (auto simp: prepend_Inr)
    from "2.IH"(1) [OF True this] True show ?thesis
      by (simp add: unescaped_not_surrogate)
  next
    case False
    show ?thesis
    proof (cases "\<not> isLeadSurrogate c \<and> \<not> isTrailSurrogate c")
      case True
      with False "2.prems" obtain e' where "encodeURIComponent cs = Inr e'"
        by (auto simp: prepend_Inr)
      from "2.IH"(2) [OF False True this] True show ?thesis
        by simp
    next
      case surrogate: False
      with False "2.prems" have nt: "\<not> isTrailSurrogate c"
        by (auto split: if_splits)
      with surrogate have lead: "isLeadSurrogate c"
        by simp
      from False surrogate nt "2.prems" obtain d ds e' where cs: "cs = d # ds"
        and d: "isTrailSurrogate d" and e': "encodeURIComponent ds = Inr e'"
        by (auto simp: prepend_Inr split: list.splits if_splits)
      from "2.IH"(3) [OF False surrogate nt cs d e'] lead d show ?thesis
        by (simp add: cs)
    qed
  qed
qed

lemma not_wellFormed_throws:
  "\<not> wellFormedUTF16 s \<Longrightarrow> encodeURIComponent s = Inl uriMalformed"
  using encodes_wellFormed [of s] encode_error [of s]
  by (cases "encodeURIComponent s") auto

lemma reduceKeys_throws:
  "\<not> (\<forall>key\<in>set keys. wellFormedUTF16 key \<and> wellFormedUTF16 (ToString (get_prop params key))) \<Longrightarrow>
   reduceKeys params fs keys index acc = Inl uriMalformed"
proof (induction keys arbitrary: index acc)
  case Nil
  then show ?case by simp
next
  case (Cons key keys)
  show ?case
  proof (cases "wellFormedUTF16 key \<and> wellFormedUTF16 (ToString (get_prop params key))")
    case True
    then obtain ek ev where "encodeURIComponent key = Inr ek"
      "encodeURIComponent (ToString (get_prop params key)) = Inr ev"
      using wellFormed_encodes [of key] wellFormed_encodes [of "ToString (get_prop params key)"]
      by auto
    moreover from True Cons.prems have "\<not> (\<forall>key\<in>set keys.
        wellFormedUTF16 key \<and> wellFormedUTF16 (ToString (get_prop params key)))"
      by simp
    ultimately show ?thesis
      using Cons.IH by simp
  next
    case False
    then show ?thesis
      using not_wellFormed_throws [of key]
        not_wellFormed_throws [of "ToString (get_prop params key)"]
      by (auto split: sum.splits dest: encode_error)
  qed
qed

lemma buildQuery_throws:
  assumes "\<not> wellFormedParams params"
  shows "buildQuery b params = Inl uriMalformed"
proof -
  from assms have bad: "\<not> (\<forall>key\<in>set (Object_keys params).
      wellFormedUTF16 key \<and> wellFormedUTF16 (ToString (get_prop params key)))"
    by (simp add: wellFormedParams_def list_all_iff)
  then have "Object_keys params \<noteq> []"
    by auto
  with reduceKeys_throws [OF bad] show ?thesis
    by (simp add: buildQuery_def Let_def)
qed

lemma entries_distinct:
  assumes "distinct (map fst params)"
  shows "entries params = map (\<lambda>(key, v). (key, ToString v)) params"
proof -
  have "\<And>key v. (key, v) \<in> set params \<Longrightarrow> get_prop params key = v"
    using assms by (simp add: get_prop_def)
  then show ?thesis
    by (auto simp: entries_def Object_keys_def)
qed

text \<open>
  C7, as amended. For a \<open>baseUrl\<close> and a parameter object that \<open>validateInputs\<close> accepts
  (so that \<open>baseUrl\<close> is accepted, no key is blank and every value is a string) and
  whose keys and values are well-formed strings (no unpaired surrogate), the builder of
  \<open>src/index.ts\<close> returns a URL: it is \<open>baseUrl\<close> followed by a query string that
  decodes to exactly the key/value pairs of the object, in order, and that contains no
  plus sign. If \<open>validateInputs\<close> accepts and a key or a value has an unpaired
  surrogate, the builder throws a URIError. If \<open>validateInputs\<close> refuses, the builder
  throws the error of the validation, and there is no query string. A space is encoded as
  \<open>%20\<close>.
\<close>

theorem encoding_round_trip:
  "(validateInputs URL w (String b) (Object params) = Valid \<and> wellFormedParams params \<longrightarrow>
      (\<exists>url. generateUrl URL w (String b) (Object params) = Inr url \<and>
         take (length b) url = b \<and>
         decodeQuery (drop (length b) url) = Some (entries params) \<and>
         plusSign \<notin> set (drop (length b) url))) \<and>
   (validateInputs URL w (String b) (Object params) = Valid \<and> \<not> wellFormedParams params \<longrightarrow>
      generateUrl URL w (String b) (Object params) = Inl uriMalformed) \<and>
   (validateInputs URL w (String b) (Object params) = Invalid e \<longrightarrow>
      generateUrl URL w (String b) (Object params) = Inl e) \<and>
   encodeURIComponent (js '' '') = Inr (js ''%20'')"
proof -
  have ok: "validateInputs URL w (String b) (Object params) = Valid \<and> wellFormedParams params \<longrightarrow>
      (\<exists>url. generateUrl URL w (String b) (Object params) = Inr url \<and>
         take (length b) url = b \<and>
         decodeQuery (drop (length b) url) = Some (entries params) \<and>
         plusSign \<notin> set (drop (length b) url))"
  proof
    assume a: "validateInputs URL w (String b) (Object params) = Valid \<and> wellFormedParams params"
    then have "wellFormedParams params" ..
    from buildQuery_total [OF this] obtain url where url: "buildQuery b params = Inr url"
      by blast
    with a have "generateUrl URL w (String b) (Object params) = Inr url"
      by (simp add: generateUrl_Inr)
    with buildQuery_round_trip [OF url]
    show "\<exists>url. generateUrl URL w (String b) (Object params) = Inr url \<and>
         take (length b) url = b \<and>
         decodeQuery (drop (length b) url) = Some (entries params) \<and>
         plusSign \<notin> set (drop (length b) url)"
      by blast
  qed
  have bad: "validateInputs URL w (String b) (Object params) = Valid \<and>
      \<not> wellFormedParams params \<longrightarrow>
      generateUrl URL w (String b) (Object params) = Inl uriMalformed"
    by (simp add: generateUrl_def buildQuery_throws)
  have refused: "validateInputs URL w (String b) (Object params) = Invalid e \<longrightarrow>
      generateUrl URL w (String b) (Object params) = Inl e"
    by (simp add: generateUrl_def)
  have space: "encodeURIComponent (js '' '') = Inr (js ''%20'')"
    by (simp add: builder_defs)
  from ok bad refused space show ?thesis
    by (intro conjI)
qed

theorem encoding_round_trip_witness:
  "validateInputs example_URL example_page (String widget_url) (Object reserved_params) = Valid \<and>
   wellFormedParams reserved_params \<and>
   generateUrl example_URL example_page (String widget_url) (Object reserved_params) =
     Inr reserved_request \<and>
   decodeQuery (js ''?a%20b=c%26d%3De%3F&k=%E2%82%AC%F0%9F%98%80'') =
     Some [(js ''a b'', js ''c&d=e?''), (js ''k'', [0x20AC, 0xD83D, 0xDE00])] \<and>
   validateInputs example_URL example_page (String widget_url) (Object lone_surrogate_params) =
     Valid \<and>
   \<not> wellFormedParams lone_surrogate_params \<and>
   generateUrl example_URL example_page (String widget_url) (Object lone_surrogate_params) =
     Inl uriMalformed \<and>
   validateInputs example_URL example_page (String widget_url)
       (Object [(js '' '', String (js ''2''))]) =
     Invalid (Error (js ''queryParamsObject keys cannot be empty'')) \<and>
   generateUrl example_URL example_page (String widget_url)
       (Object [(js '' '', String (js ''2''))]) =
     Inl (Error (js ''queryParamsObject keys cannot be empty''))"
proof -
  have v: "validateInputs example_URL example_page (String widget_url) (Object reserved_params) =
      Valid"
    by (simp add: reserved_params_def builder_defs example_defs)
  have wf: "wellFormedParams reserved_params"
    by (simp add: wellFormedParams_def reserved_params_def builder_defs)
  have g: "generateUrl example_URL example_page (String widget_url) (Object reserved_params) =
      Inr reserved_request"
    by (simp add: reserved_params_def reserved_request_def builder_defs example_defs)
  have d: "drop (length widget_url) reserved_request =
      js ''?a%20b=c%26d%3De%3F&k=%E2%82%AC%F0%9F%98%80''"
    by (simp add: widget_url_def reserved_request_def js_def)
  have e: "entries reserved_params =
      [(js ''a b'', js ''c&d=e?''), (js ''k'', [0x20AC, 0xD83D, 0xDE00])]"
    by (simp add: entries_def reserved_params_def Object_keys_def get_prop_def js_def)
  have v': "validateInputs example_URL example_page (String widget_url)
      (Object lone_surrogate_params) = Valid"
    by (simp add: lone_surrogate_params_def builder_defs example_defs)
  have nwf: "\<not> wellFormedParams lone_surrogate_params"
    by (simp add: wellFormedParams_def lone_surrogate_params_def builder_defs)
  have r: "validateInputs example_URL example_page (String widget_url)
      (Object [(js '' '', String (js ''2''))]) =
      Invalid (Error (js ''queryParamsObject keys cannot be empty''))"
    by (simp add: builder_defs example_defs)
  note rt = encoding_round_trip
    [where URL = example_URL and w = example_page and b = widget_url and params = reserved_params,
     THEN conjunct1, THEN mp, OF conjI [OF v wf]]
  note th = encoding_round_trip
    [where URL = example_URL and w = example_page and b = widget_url
       and params = lone_surrogate_params,
     THEN conjunct2, THEN conjunct1, THEN mp, OF conjI [OF v' nwf]]
  note rf = encoding_round_trip
    [where URL = example_URL and w = example_page and b = widget_url
       and params = "[(js '' '', String (js ''2''))]"
       and e = "Error (js ''queryParamsObject keys cannot be empty'')",
     THEN conjunct2, THEN conjunct2, THEN conjunct1, THEN mp, OF r]
  from rt g
  have "decodeQuery (drop (length widget_url) reserved_request) = Some (entries reserved_params)"
    by auto
  then have dq: "decodeQuery (js ''?a%20b=c%26d%3De%3F&k=%E2%82%AC%F0%9F%98%80'') =
      Some [(js ''a b'', js ''c&d=e?''), (js ''k'', [0x20AC, 0xD83D, 0xDE00])]"
    by (simp only: d e)
  from v wf g dq v' nwf th r rf show ?thesis
    by (intro conjI)
qed

text \<open>
  C7 as stated fails, in two ways. A key that is half of a surrogate pair is a string
  and passes validation, and on it the builder throws a URIError. A key that is a single
  space is a well-formed string, and validation refuses it: the builder throws
  \<open>queryParamsObject keys cannot be empty\<close>. In both cases there is no query string
  to decode.
\<close>

theorem encoding_round_trip_counterexample:
  "validateInputs example_URL example_page (String widget_url) (Object lone_surrogate_params) =
     Valid \<and>
   generateUrl example_URL example_page (String widget_url) (Object lone_surrogate_params) =
     Inl (URIError (js ''URI malformed'')) \<and>
   blank_key_params = Object [(js '' '', String (js ''2''))] \<and>
   wellFormedParams [(js '' '', String (js ''2''))] \<and>
   generateUrl example_URL example_page (String widget_url) blank_key_params =
     Inl (Error (js ''queryParamsObject keys cannot be empty''))"
proof -
  have "validateInputs example_URL example_page (String widget_url)
      (Object lone_surrogate_params) = Valid"
    and "generateUrl example_URL example_page (String widget_url)
      (Object lone_surrogate_params) = Inl (URIError (js ''URI malformed''))"
    by (simp_all add: lone_surrogate_params_def builder_defs example_defs)
  moreover have "blank_key_params = Object [(js '' '', String (js ''2''))]"
    by (simp add: blank_key_params_def)
  moreover have "wellFormedParams [(js '' '', String (js ''2''))]"
    by (simp add: wellFormedParams_def builder_defs)
  moreover have "generateUrl example_URL example_page (String widget_url) blank_key_params =
      Inl (Error (js ''queryParamsObject keys cannot be empty''))"
    by (simp add: blank_key_params_def builder_defs example_defs)
  ultimately show ?thesis
    by (intro conjI)
qed


section \<open>The shape of the constructed URL\<close>

lemma buildQuery_returns_wellFormed:
  "buildQuery b params = Inr url \<Longrightarrow> wellFormedParams params"
  using buildQuery_throws [of params b] by (cases "wellFormedParams params") simp_all

lemma checkValues_acceptsValues:
  "checkValues name params keys = None \<longleftrightarrow> acceptsValues params keys"
  by (induction keys) (auto simp: acceptsValues_def split: jsval.splits)

lemma generateUrl_loose_returns:
  "generateUrl_loose (String b) (Object params) = Inr url \<longleftrightarrow>
     trim b \<noteq> [] \<and> acceptsValues params (Object_keys params) \<and> buildQuery b params = Inr url"
  by (auto simp: generateUrl_loose_Inr checkValues_acceptsValues)

text \<open>
  C6, as amended. Let the parameter object be non-empty. The builder of \<open>src/index.ts\<close>
  returns a URL exactly when \<open>validateInputs\<close> accepts the input and every key and value
  is a well-formed string; the builder of the second file exactly when \<open>baseUrl\<close> is
  not blank, every value is a string and every key and value is well formed. The URL
  returned is \<open>baseUrl\<close>, then one separator, which is \<open>&\<close> if \<open>baseUrl\<close> contains \<open>?\<close>
  and \<open>?\<close> otherwise, then the encoded pairs in the order of \<open>Object.keys\<close>, each pair
  after the first preceded by \<open>&\<close>.
\<close>

theorem separator_correctness:
  assumes "params \<noteq> []"
  shows
    "(validateInputs URL w (String b) (Object params) = Valid \<and> wellFormedParams params \<longrightarrow>
        (\<exists>es. list_all2 (isEncodedPair params) (Object_keys params) es \<and>
              generateUrl URL w (String b) (Object params) =
                Inr (b @ joinPairs (if questionMark \<in> set b then ampersand else questionMark) es))) \<and>
     (trim b \<noteq> [] \<and> acceptsValues params (Object_keys params) \<and> wellFormedParams params \<longrightarrow>
        (\<exists>es. list_all2 (isEncodedPair params) (Object_keys params) es \<and>
              generateUrl_loose (String b) (Object params) =
                Inr (b @ joinPairs (if questionMark \<in> set b then ampersand else questionMark) es))) \<and>
     (generateUrl URL w (String b) (Object params) = Inr url \<longrightarrow>
        validateInputs URL w (String b) (Object params) = Valid \<and> wellFormedParams params) \<and>
     (generateUrl_loose (String b) (Object params) = Inr url \<longrightarrow>
        trim b \<noteq> [] \<and> acceptsValues params (Object_keys params) \<and> wellFormedParams params)"
proof -
  have shape: "\<exists>es. list_all2 (isEncodedPair params) (Object_keys params) es \<and>
      buildQuery b params =
        Inr (b @ joinPairs (if questionMark \<in> set b then ampersand else questionMark) es)"
    if "wellFormedParams params"
  proof -
    from buildQuery_total [OF that] obtain url where url: "buildQuery b params = Inr url"
      by blast
    from buildQuery_shape [OF url assms] url show ?thesis
      by auto
  qed
  have strict: "validateInputs URL w (String b) (Object params) = Valid \<and>
      wellFormedParams params \<longrightarrow>
      (\<exists>es. list_all2 (isEncodedPair params) (Object_keys params) es \<and>
            generateUrl URL w (String b) (Object params) =
              Inr (b @ joinPairs (if questionMark \<in> set b then ampersand else questionMark) es))"
    using shape by (auto simp: generateUrl_Inr)
  have loose: "trim b \<noteq> [] \<and> acceptsValues params (Object_keys params) \<and>
      wellFormedParams params \<longrightarrow>
      (\<exists>es. list_all2 (isEncodedPair params) (Object_keys params) es \<and>
            generateUrl_loose (String b) (Object params) =
              Inr (b @ joinPairs (if questionMark \<in> set b then ampersand else questionMark) es))"
    using shape by (auto simp: generateUrl_loose_returns)
  have strict_only: "generateUrl URL w (String b) (Object params) = Inr url \<longrightarrow>
      validateInputs URL w (String b) (Object params) = Valid \<and> wellFormedParams params"
    by (auto simp: generateUrl_Inr dest: buildQuery_returns_wellFormed)
  have loose_only: "generateUrl_loose (String b) (Object params) = Inr url \<longrightarrow>
      trim b \<noteq> [] \<and> acceptsValues params (Object_keys params) \<and> wellFormedParams params"
    by (auto simp: generateUrl_loose_returns dest: buildQuery_returns_wellFormed)
  from strict loose strict_only loose_only show ?thesis
    by (intro conjI)
qed

lemma two_params_pairs:
  "list_all2 (isEncodedPair two_params) (Object_keys two_params) es \<longleftrightarrow>
     es = [js ''v=2'', js ''q=a%20b'']"
  by (auto simp: two_params_def list_all2_Cons1 isEncodedPair_def encodePair_def builder_defs)

theorem separator_correctness_witness:
  "two_params \<noteq> [] \<and>
   validateInputs example_URL example_page (String widget_url) (Object two_params) = Valid \<and>
   wellFormedParams two_params \<and>
   generateUrl example_URL example_page (String widget_url) (Object two_params) =
     Inr (js ''https://cdn.example.com/widget.js?v=2&q=a%20b'') \<and>
   trim query_url \<noteq> [] \<and>
   acceptsValues two_params (Object_keys two_params) \<and>
   generateUrl_loose (String query_url) (Object two_params) =
     Inr (js ''/widget.js?x=1&v=2&q=a%20b'')"
proof -
  have ne: "two_params \<noteq> []"
    by (simp add: two_params_def)
  have v: "validateInputs example_URL example_page (String widget_url) (Object two_params) = Valid"
    by (simp add: two_params_def builder_defs example_defs)
  have wf: "wellFormedParams two_params"
    by (simp add: wellFormedParams_def two_params_def builder_defs)
  have t: "trim query_url \<noteq> []"
    by (simp add: query_url_def builder_defs)
  have a: "acceptsValues two_params (Object_keys two_params)"
    by (simp add: acceptsValues_def two_params_def Object_keys_def get_prop_def)
  have q1: "questionMark \<notin> set widget_url" and q2: "questionMark \<in> set query_url"
    by (simp_all add: widget_url_def query_url_def questionMark_def js_def)
  from separator_correctness [OF ne, of example_URL example_page widget_url] v wf
  have g: "generateUrl example_URL example_page (String widget_url) (Object two_params) =
      Inr (js ''https://cdn.example.com/widget.js?v=2&q=a%20b'')"
    by (auto simp: two_params_pairs q1 joinPairs_def widget_url_def questionMark_def
        ampersand_def js_def)
  from separator_correctness [OF ne, of _ _ query_url] t a wf
  have l: "generateUrl_loose (String query_url) (Object two_params) =
      Inr (js ''/widget.js?x=1&v=2&q=a%20b'')"
    by (auto simp: two_params_pairs q2 joinPairs_def query_url_def questionMark_def
        ampersand_def js_def)
  from ne v wf g t a l show ?thesis
    by (intro conjI)
qed

text \<open>
  C6 as stated fails: the empty string is a \<open>baseUrl\<close> without \<open>?\<close>, and on it, with a
  non-empty parameter object, the builder of either file throws and inserts no separator.
\<close>

theorem separator_correctness_counterexample:
  "questionMark \<notin> set ([] :: jsstring) \<and> two_params \<noteq> [] \<and>
   generateUrl example_URL example_page (String []) (Object two_params) =
     Inl (Error (js ''baseUrl cannot be empty'')) \<and>
   generateUrl_loose (String []) (Object two_params) =
     Inl (Error (js ''baseUrl cannot be empty''))"
  by (simp add: two_params_def generateUrl_def generateUrl_loose_def validateInputs_def trim_def)


section \<open>The builder and its environment\<close>

lemma validateParams_not_baseUrl_error:
  "validateParams params keys \<noteq> Invalid (Error (js ''baseUrl must be a valid URL''))"
  "validateParams params keys \<noteq> Invalid (Error (js ''baseUrl must use http: or https: protocol''))"
  by (induction keys) (auto simp: js_def split: jsval.splits)

lemma reduceKeys_error: "reduceKeys params fs keys index acc = Inl e \<Longrightarrow> e = uriMalformed"
  by (induction keys arbitrary: index acc) (auto split: sum.splits dest: encode_error)

lemma buildQuery_error: "buildQuery b params = Inl e \<Longrightarrow> e = uriMalformed"
  by (auto simp: buildQuery_def Let_def split: if_splits sum.splits dest: reduceKeys_error)

lemma verdict_unparseable:
  "trim b \<noteq> [] \<Longrightarrow> baseUrlVerdict URL w b = Unparseable \<Longrightarrow>
   generateUrl URL w (String b) params = Inl (Error (js ''baseUrl must be a valid URL''))"
  by (auto simp: baseUrlVerdict_def generateUrl_def validateInputs_def
      split: option.splits if_splits)

lemma verdict_wrong_protocol:
  "trim b \<noteq> [] \<Longrightarrow> baseUrlVerdict URL w b = WrongProtocol \<Longrightarrow>
   generateUrl URL w (String b) params =
     Inl (Error (js ''baseUrl must use http: or https: protocol''))"
  by (auto simp: baseUrlVerdict_def generateUrl_def validateInputs_def
      split: option.splits if_splits)

lemma verdict_accepted_validate:
  "trim b \<noteq> [] \<Longrightarrow> baseUrlVerdict URL w b = Accepted \<Longrightarrow>
   validateInputs URL w (String b) params =
     (case params of
        Null \<Rightarrow> Invalid (TypeError (js ''queryParamsObject must be an object''))
      | Undefined \<Rightarrow> Invalid (TypeError (js ''queryParamsObject must be an object''))
      | Object ps \<Rightarrow> validateParams ps (Object_keys ps)
      | _ \<Rightarrow> Invalid (TypeError (js ''queryParamsObject must be a plain object'')))"
  by (auto simp: baseUrlVerdict_def validateInputs_def split: option.splits if_splits)

lemma verdict_accepted_same:
  assumes "trim b \<noteq> []" and "baseUrlVerdict URL1 w1 b = Accepted"
    and "baseUrlVerdict URL2 w2 b = Accepted"
  shows "generateUrl URL1 w1 (String b) params = generateUrl URL2 w2 (String b) params"
  by (simp add: generateUrl_def verdict_accepted_validate [OF assms(1,2)]
      verdict_accepted_validate [OF assms(1,3)])

lemma verdict_accepted_other:
  assumes "trim b \<noteq> []" and "baseUrlVerdict URL w b = Accepted"
  shows "generateUrl URL w (String b) params \<noteq> Inl (Error (js ''baseUrl must be a valid URL''))"
    and "generateUrl URL w (String b) params \<noteq>
         Inl (Error (js ''baseUrl must use http: or https: protocol''))"
proof -
  have "e \<noteq> Error (js ''baseUrl must be a valid URL'') \<and>
        e \<noteq> Error (js ''baseUrl must use http: or https: protocol'')"
    if "generateUrl URL w (String b) params = Inl e" for e
  proof (cases "validateInputs URL w (String b) params")
    case Valid
    then obtain ps where "params = Object ps"
      by (auto simp: validateInputs_Valid)
    with Valid that have "buildQuery b ps = Inl e"
      by (simp add: generateUrl_def)
    then have "e = uriMalformed"
      by (rule buildQuery_error)
    then show ?thesis
      by (simp add: uriMalformed_def)
  next
    case (Invalid e')
    with that have e: "e' = e"
      by (simp add: generateUrl_def)
    from Invalid validateParams_not_baseUrl_error show ?thesis
      unfolding e verdict_accepted_validate [OF assms]
      by (cases params) (auto simp: js_def)
  qed
  then show "generateUrl URL w (String b) params \<noteq> Inl (Error (js ''baseUrl must be a valid URL''))"
    and "generateUrl URL w (String b) params \<noteq>
         Inl (Error (js ''baseUrl must use http: or https: protocol''))"
    by blast+
qed

lemma verdict_decides:
  assumes "trim b \<noteq> []"
  shows "generateUrl URL1 w1 (String b) params = generateUrl URL2 w2 (String b) params \<longleftrightarrow>
         baseUrlVerdict URL1 w1 b = baseUrlVerdict URL2 w2 b"
proof -
  have differ: "js ''baseUrl must be a valid URL'' \<noteq> js ''baseUrl must use http: or https: protocol''"
    by (simp add: js_def)
  show ?thesis
  proof (cases "baseUrlVerdict URL1 w1 b")
    case Unparseable
    note v1 = verdict_unparseable [OF assms Unparseable, of params]
    show ?thesis
    proof (cases "baseUrlVerdict URL2 w2 b")
      case Unparseable
      from verdict_unparseable [OF assms this, of params] v1 \<open>baseUrlVerdict URL1 w1 b = Unparseable\<close>
        Unparseable show ?thesis by simp
    next
      case WrongProtocol
      from verdict_wrong_protocol [OF assms this, of params] v1
        \<open>baseUrlVerdict URL1 w1 b = Unparseable\<close> WrongProtocol differ show ?thesis by simp
    next
      case Accepted
      from verdict_accepted_other(1) [OF assms this, of params] v1
        \<open>baseUrlVerdict URL1 w1 b = Unparseable\<close> Accepted show ?thesis by auto
    qed
  next
    case WrongProtocol
    note v1 = verdict_wrong_protocol [OF assms WrongProtocol, of params]
    show ?thesis
    proof (cases "baseUrlVerdict URL2 w2 b")
      case Unparseable
      from verdict_unparseable [OF assms this, of params] v1
        \<open>baseUrlVerdict URL1 w1 b = WrongProtocol\<close> Unparseable differ show ?thesis by simp
    next
      case WrongProtocol
      from verdict_wrong_protocol [OF assms this, of params] v1
        \<open>baseUrlVerdict URL1 w1 b = WrongProtocol\<close> WrongProtocol show ?thesis by simp
    next
      case Accepted
      from verdict_accepted_other(2) [OF assms this, of params] v1
        \<open>baseUrlVerdict URL1 w1 b = WrongProtocol\<close> Accepted show ?thesis by auto
    qed
  next
    case Accepted
    note a1 = Accepted
    show ?thesis
    proof (cases "baseUrlVerdict URL2 w2 b")
      case Unparseable
      from verdict_unparseable [OF assms this, of params]
        verdict_accepted_other(1) [OF assms a1, of params] a1 Unparseable show ?thesis by auto
    next
      case WrongProtocol
      from verdict_wrong_protocol [OF assms this, of params]
        verdict_accepted_other(2) [OF assms a1, of params] a1 WrongProtocol show ?thesis by auto
    next
      case Accepted
      from verdict_accepted_same [OF assms a1 this, of params] a1 Accepted show ?thesis by simp
    qed
  qed
qed

lemma loader_builder_throws:
  "window w = Some origin \<Longrightarrow> validateInputs URL w baseUrl params = Valid \<Longrightarrow>
   generateUrl URL w baseUrl params = Inl e \<Longrightarrow>
   asyncScriptLoader URL baseUrl params w = (Inl e, w)"
  by (simp add: asyncScriptLoader_def)

lemma builder_returns_same:
  assumes "generateUrl URL1 w1 baseUrl params = Inr u1"
    and "generateUrl URL2 w2 baseUrl params = Inr u2"
  shows "u1 = u2"
proof -
  from assms(1) obtain b ps where "baseUrl = String b" "params = Object ps"
    "buildQuery b ps = Inr u1"
    by (auto simp: generateUrl_Inr)
  moreover from assms(2) obtain b' ps' where "baseUrl = String b'" "params = Object ps'"
    "buildQuery b' ps' = Inr u2"
    by (auto simp: generateUrl_Inr)
  ultimately show ?thesis
    by simp
qed

lemma builder_blank_same:
  "trim b = [] \<Longrightarrow>
   generateUrl URL1 w1 (String b) params = generateUrl URL2 w2 (String b) params"
  by (simp add: generateUrl_def validateInputs_def)

lemma builder_not_string_same:
  "\<forall>s. baseUrl \<noteq> String s \<Longrightarrow>
   generateUrl URL1 w1 baseUrl params = generateUrl URL2 w2 baseUrl params"
  by (cases baseUrl) (simp_all add: generateUrl_def validateInputs_def)

text \<open>
  C9, as amended. The result of the builder of \<open>src/index.ts\<close> depends on the
  environment, and exactly through what the environment decides about \<open>baseUrl\<close>: whether
  there is a window and the platform parses \<open>baseUrl\<close> against
  \<open>window.location.origin\<close>, and whether the protocol it reports is \<open>http:\<close> or
  \<open>https:\<close>. For a string \<open>baseUrl\<close> that is not blank, two calls with equal inputs in
  two environments give equal results if and only if the two environments decide alike.
  For a blank \<open>baseUrl\<close>, and for one that is not a string, two calls with equal inputs
  give equal results in any two environments. Two calls with equal inputs that both
  return, return the same URL. The builder writes nothing: in a browser, a call of the
  loader whose inputs pass validation and in which the builder throws leaves the world
  exactly as it was, and a call in which the builder returns \<open>url\<close> changes the world by
  what injecting the script for \<open>url\<close> does and by nothing else.
\<close>

theorem builder_reads_window_only:
  "(trim b \<noteq> [] \<longrightarrow>
      (generateUrl URL1 w1 (String b) params = generateUrl URL2 w2 (String b) params \<longleftrightarrow>
         baseUrlVerdict URL1 w1 b = baseUrlVerdict URL2 w2 b)) \<and>
   (trim b = [] \<longrightarrow>
      generateUrl URL1 w1 (String b) params = generateUrl URL2 w2 (String b) params) \<and>
   ((\<forall>s. baseUrl \<noteq> String s) \<longrightarrow>
      generateUrl URL1 w1 baseUrl params = generateUrl URL2 w2 baseUrl params) \<and>
   (generateUrl URL1 w1 baseUrl params = Inr u1 \<and>
    generateUrl URL2 w2 baseUrl params = Inr u2 \<longrightarrow> u1 = u2) \<and>
   (window w1 \<noteq> None \<and> validateInputs URL1 w1 baseUrl params = Valid \<and>
    generateUrl URL1 w1 baseUrl params = Inl e \<longrightarrow>
      asyncScriptLoader URL1 baseUrl params w1 = (Inl e, w1)) \<and>
   (window w1 \<noteq> None \<and> generateUrl URL1 w1 baseUrl params = Inr url \<longrightarrow>
      asyncScriptLoader URL1 baseUrl params w1 =
        (Inr (fst (injectScript url w1)), snd (injectScript url w1)))"
proof (intro conjI impI)
  assume "trim b \<noteq> []"
  then show "generateUrl URL1 w1 (String b) params = generateUrl URL2 w2 (String b) params \<longleftrightarrow>
      baseUrlVerdict URL1 w1 b = baseUrlVerdict URL2 w2 b"
    by (rule verdict_decides)
next
  assume "trim b = []"
  then show "generateUrl URL1 w1 (String b) params = generateUrl URL2 w2 (String b) params"
    by (rule builder_blank_same)
next
  assume "\<forall>s. baseUrl \<noteq> String s"
  then show "generateUrl URL1 w1 baseUrl params = generateUrl URL2 w2 baseUrl params"
    by (rule builder_not_string_same)
next
  assume "generateUrl URL1 w1 baseUrl params = Inr u1 \<and>
    generateUrl URL2 w2 baseUrl params = Inr u2"
  then show "u1 = u2"
    by (blast intro: builder_returns_same)
next
  assume "window w1 \<noteq> None \<and> validateInputs URL1 w1 baseUrl params = Valid \<and>
    generateUrl URL1 w1 baseUrl params = Inl e"
  then show "asyncScriptLoader URL1 baseUrl params w1 = (Inl e, w1)"
    by (auto intro: loader_builder_throws)
next
  assume "window w1 \<noteq> None \<and> generateUrl URL1 w1 baseUrl params = Inr url"
  then show "asyncScriptLoader URL1 baseUrl params w1 =
      (Inr (fst (injectScript url w1)), snd (injectScript url w1))"
    by (auto intro: loader_valid)
qed

theorem builder_reads_window_only_witness:
  "baseUrlVerdict example_URL example_page (js ''/widget.js'') = Accepted \<and>
   baseUrlVerdict example_URL opaque_origin_page (js ''/widget.js'') = Unparseable \<and>
   generateUrl example_URL example_page (String (js ''/widget.js'')) (Object two_params) \<noteq>
     generateUrl example_URL opaque_origin_page (String (js ''/widget.js'')) (Object two_params) \<and>
   baseUrlVerdict example_URL example_page (js ''ftp://example.com/widget.js'') = WrongProtocol \<and>
   baseUrlVerdict example_URL no_head_page (js ''ftp://example.com/widget.js'') = WrongProtocol \<and>
   generateUrl example_URL example_page (String (js ''ftp://example.com/widget.js''))
       (Object two_params) =
     generateUrl example_URL no_head_page (String (js ''ftp://example.com/widget.js''))
       (Object two_params) \<and>
   generateUrl example_URL example_page (String (js '' '')) Null =
     generateUrl example_URL no_window (String (js '' '')) Null \<and>
   generateUrl example_URL example_page Null (Object two_params) =
     generateUrl example_URL no_window Null (Object two_params) \<and>
   asyncScriptLoader example_URL (String widget_url) (Object lone_surrogate_params) example_page =
     (Inl uriMalformed, example_page) \<and>
   asyncScriptLoader example_URL (String widget_url) (Object two_params) example_page =
     (Inr (fst (injectScript (js ''https://cdn.example.com/widget.js?v=2&q=a%20b'') example_page)),
      snd (injectScript (js ''https://cdn.example.com/widget.js?v=2&q=a%20b'') example_page))"
proof -
  let ?rel = "js ''/widget.js''" and ?ftp = "js ''ftp://example.com/widget.js''"
  have rel: "trim ?rel \<noteq> []" and ftp: "trim ?ftp \<noteq> []" and blank: "trim (js '' '') = []"
    by (simp_all add: builder_defs)
  have v1: "baseUrlVerdict example_URL example_page ?rel = Accepted"
    and v2: "baseUrlVerdict example_URL opaque_origin_page ?rel = Unparseable"
    and v3: "baseUrlVerdict example_URL example_page ?ftp = WrongProtocol"
    and v4: "baseUrlVerdict example_URL no_head_page ?ftp = WrongProtocol"
    by (simp_all add: baseUrlVerdict_def opaque_origin_page_def no_head_page_def
        builder_defs example_defs)
  have win: "window example_page \<noteq> None"
    by (simp add: example_page_def)
  have valid: "validateInputs example_URL example_page (String widget_url)
      (Object lone_surrogate_params) = Valid"
    and throws: "generateUrl example_URL example_page (String widget_url)
      (Object lone_surrogate_params) = Inl uriMalformed"
    and returns: "generateUrl example_URL example_page (String widget_url) (Object two_params) =
      Inr (js ''https://cdn.example.com/widget.js?v=2&q=a%20b'')"
    by (simp_all add: lone_surrogate_params_def two_params_def builder_defs example_defs)
  note thm1 = builder_reads_window_only
    [where b = ?rel and ?URL1.0 = example_URL and ?w1.0 = example_page
       and ?URL2.0 = example_URL and ?w2.0 = opaque_origin_page and params = "Object two_params",
     THEN conjunct1, THEN mp, OF rel]
  note thm2 = builder_reads_window_only
    [where b = ?ftp and ?URL1.0 = example_URL and ?w1.0 = example_page
       and ?URL2.0 = example_URL and ?w2.0 = no_head_page and params = "Object two_params",
     THEN conjunct1, THEN mp, OF ftp]
  note thm3 = builder_reads_window_only
    [where b = "js '' ''" and ?URL1.0 = example_URL and ?w1.0 = example_page
       and ?URL2.0 = example_URL and ?w2.0 = no_window and params = Null,
     THEN conjunct2, THEN conjunct1, THEN mp, OF blank]
  note thm4 = builder_reads_window_only
    [where baseUrl = Null and ?URL1.0 = example_URL and ?w1.0 = example_page
       and ?URL2.0 = example_URL and ?w2.0 = no_window and params = "Object two_params",
     THEN conjunct2, THEN conjunct2, THEN conjunct1, THEN mp]
  note thm5 = builder_reads_window_only
    [where baseUrl = "String widget_url" and ?URL1.0 = example_URL and ?w1.0 = example_page
       and params = "Object lone_surrogate_params" and e = uriMalformed,
     THEN conjunct2, THEN conjunct2, THEN conjunct2, THEN conjunct2, THEN conjunct1, THEN mp]
  note thm6 = builder_reads_window_only
    [where baseUrl = "String widget_url" and ?URL1.0 = example_URL and ?w1.0 = example_page
       and params = "Object two_params"
       and url = "js ''https://cdn.example.com/widget.js?v=2&q=a%20b''",
     THEN conjunct2, THEN conjunct2, THEN conjunct2, THEN conjunct2, THEN conjunct2, THEN mp]
  from thm1 v1 v2 have differ:
    "generateUrl example_URL example_page (String ?rel) (Object two_params) \<noteq>
     generateUrl example_URL opaque_origin_page (String ?rel) (Object two_params)"
    by simp
  from thm2 v3 v4 have same:
    "generateUrl example_URL example_page (String ?ftp) (Object two_params) =
     generateUrl example_URL no_head_page (String ?ftp) (Object two_params)"
    by simp
  have notstring: "\<forall>s. Null \<noteq> String s"
    by simp
  note n = thm4 [OF notstring]
  note l1 = thm5 [OF conjI [OF win conjI [OF valid throws]]]
  note l2 = thm6 [OF conjI [OF win returns]]
  from v1 v2 differ v3 v4 same thm3 n l1 l2 show ?thesis
    by (intro conjI)
qed

text \<open>
  C9 as stated fails: the builder of \<open>src/index.ts\<close> parses \<open>baseUrl\<close> against
  \<open>window.location.origin\<close>. The same absolute URL is returned on a page and refused
  where there is no window; the same relative URL is returned on a page with an
  \<open>https\<close> origin and refused on a page whose origin is \<open>null\<close>.
\<close>

theorem builder_reads_window_only_counterexample:
  "generateUrl example_URL example_page (String widget_url) (Object []) = Inr widget_url \<and>
   generateUrl example_URL no_window (String widget_url) (Object []) =
     Inl (Error (js ''baseUrl must be a valid URL'')) \<and>
   generateUrl example_URL example_page (String (js ''/widget.js'')) (Object []) =
     Inr (js ''/widget.js'') \<and>
   generateUrl example_URL opaque_origin_page (String (js ''/widget.js'')) (Object []) =
     Inl (Error (js ''baseUrl must be a valid URL''))"
  by (simp add: opaque_origin_page_def builder_defs example_defs)


end
